theory Spec2Isabelle
  imports Complex_Main "HOL-Library.Char_ord" "HOL-Library.List_Lexorder"
    "HOL-Library.Product_Lexorder"
begin

section \<open>Cells, tables and the Python primitives the processor uses\<close>

text \<open>
  \<^verbatim>\<open>data_processor.py\<close> works on pandas data frames read from a spreadsheet. A cell
  of such a frame is a missing value (NaN), an integer, a floating point number or a
  text. Numbers are kept as exact rationals: the model covers finite floats and does not
  round. Texts are lists of 8-bit characters, read as code points below 256. Column
  labels are cells as well (a header cell may be a text or a number).

  A frame is its list of column labels and its list of rows, in order. The functions
  below read a cell of a row by position with \<open>cell_at\<close>, which gives the missing
  value beyond the end of a short row, so no lemma depends on the rows being of one
  length.
\<close>

datatype cell = CNull | CInt int | CFloat rat | CStr string

record frame =
  columns :: "cell list"
  rows :: "cell list list"

text \<open>
  Library functions that are not code of the repository are parameters of the model:
  Python's \<^verbatim>\<open>str\<close> of a float, Python's \<^verbatim>\<open>float\<close> of a text
  (\<open>None\<close>: ValueError; \<open>Some None\<close>: the text denotes NaN) and the text parser of
  \<^verbatim>\<open>pandas.to_numeric(..., errors='coerce')\<close> (\<open>None\<close>: coerced to NaN). Every
  theorem below holds for each choice of the three.
\<close>

record pylib =
  float_str :: "rat \<Rightarrow> string"
  float_of_str :: "string \<Rightarrow> rat option option"
  to_numeric_str :: "string \<Rightarrow> rat option"

datatype error =
    ValueError | KeyError | TypeError | AttributeError | IndexError
  | SchemaError "string list" "cell list"
  | EmptyDatasetError

subsection \<open>Characters and texts\<close>

text \<open>
  The character classes are given by their members. White space is what
  \<^verbatim>\<open>str.strip\<close> removes: the code points 9 to 13, 28 to 32, 133 and 160.
\<close>

definition py_isspace :: "char \<Rightarrow> bool" where
  "py_isspace c = (c \<in> set [CHR 0x09, CHR 0x0A, CHR 0x0B, CHR 0x0C, CHR 0x0D, CHR 0x1C,
     CHR 0x1D, CHR 0x1E, CHR 0x1F, CHR 0x20, CHR 0x85, CHR 0xA0])"

definition is_digit :: "char \<Rightarrow> bool" where
  "is_digit c = (c \<in> set ''0123456789'')"

definition digit_val :: "char \<Rightarrow> int" where
  "digit_val c =
     (case map_of (zip ''0123456789'' [0, 1, 2, 3, 4, 5, 6, 7, 8, 9]) c of None \<Rightarrow> 0 | Some v \<Rightarrow> v)"

definition lower_char :: "char \<Rightarrow> char" where
  "lower_char c =
     (case map_of (zip ''ABCDEFGHIJKLMNOPQRSTUVWXYZ'' ''abcdefghijklmnopqrstuvwxyz'') c of
        None \<Rightarrow> c | Some d \<Rightarrow> d)"

definition upper_char :: "char \<Rightarrow> char" where
  "upper_char c =
     (case map_of (zip ''abcdefghijklmnopqrstuvwxyz'' ''ABCDEFGHIJKLMNOPQRSTUVWXYZ'') c of
        None \<Rightarrow> c | Some d \<Rightarrow> d)"

definition lower :: "string \<Rightarrow> string" where
  "lower s = map lower_char s"

definition upper :: "string \<Rightarrow> string" where
  "upper s = map upper_char s"

definition strip :: "string \<Rightarrow> string" where
  "strip s = rev (dropWhile py_isspace (rev (dropWhile py_isspace s)))"

fun starts_with :: "string \<Rightarrow> string \<Rightarrow> bool" where
  "starts_with s [] = True"
| "starts_with [] (p # ps) = False"
| "starts_with (c # cs) (p # ps) = (c = p \<and> starts_with cs ps)"

text \<open>\<open>contains s sub\<close> is Python's \<^verbatim>\<open>sub in s\<close>.\<close>

fun contains :: "string \<Rightarrow> string \<Rightarrow> bool" where
  "contains [] sub = (sub = [])"
| "contains (c # cs) sub = (starts_with (c # cs) sub \<or> contains cs sub)"

text \<open>\<open>digits_only\<close> is \<^verbatim>\<open>re.sub(r'[^0-9]', '', s)\<close>.\<close>

definition digits_only :: "string \<Rightarrow> string" where
  "digits_only s = filter is_digit s"

text \<open>The value of a text of decimal digits, most significant digit first.\<close>

definition int_of_digits :: "string \<Rightarrow> int" where
  "int_of_digits s = foldl (\<lambda>n c. 10 * n + digit_val c) 0 s"

text \<open>\<open>before c s\<close> is \<^verbatim>\<open>s.split(c)[0]\<close>: the text before the first \<open>c\<close>.\<close>

definition before :: "char \<Rightarrow> string \<Rightarrow> string" where
  "before c s = takeWhile (\<lambda>x. x \<noteq> c) s"

text \<open>Python's \<^verbatim>\<open>str\<close> of an integer.\<close>

definition digit_char :: "int \<Rightarrow> char" where
  "digit_char d =
     (case map_of (zip [0, 1, 2, 3, 4, 5, 6, 7, 8, 9] ''0123456789'') d of
        None \<Rightarrow> CHR ''0'' | Some c \<Rightarrow> c)"

function str_nat :: "int \<Rightarrow> string" where
  "str_nat n = (if n < 10 then [digit_char n]
                else str_nat (n div 10) @ [digit_char (n mod 10)])"
  by pat_completeness auto
termination
  by (relation "measure nat") auto

declare str_nat.simps [simp del]

definition str_int :: "int \<Rightarrow> string" where
  "str_int i = (if i < 0 then CHR ''-'' # str_nat (- i) else str_nat i)"

text \<open>
  Python's \<^verbatim>\<open>str\<close> of a cell. The missing value of a frame is the float NaN, whose
  text is \<^verbatim>\<open>nan\<close>.
\<close>

fun py_str :: "pylib \<Rightarrow> cell \<Rightarrow> string" where
  "py_str L CNull = ''nan''"
| "py_str L (CInt i) = str_int i"
| "py_str L (CFloat r) = float_str L r"
| "py_str L (CStr s) = s"

text \<open>
  Python's \<^verbatim>\<open>int\<close> of a text: surrounding white space, an optional sign, then
  groups of digits separated by single underscores. \<open>None\<close> is ValueError.
\<close>

fun digit_groups :: "string \<Rightarrow> bool" where
  "digit_groups [] = False"
| "digit_groups [c] = is_digit c"
| "digit_groups (c # d # cs) =
     (is_digit c \<and> (if d = CHR ''_'' then digit_groups cs else digit_groups (d # cs)))"

definition int_of_unsigned :: "string \<Rightarrow> int option" where
  "int_of_unsigned s =
     (if digit_groups s then Some (int_of_digits (digits_only s)) else None)"

definition py_int_str :: "string \<Rightarrow> int option" where
  "py_int_str s =
     (case strip s of
        [] \<Rightarrow> None
      | c # cs \<Rightarrow>
          if c = CHR ''-'' then map_option uminus (int_of_unsigned cs)
          else if c = CHR ''+'' then int_of_unsigned cs
          else int_of_unsigned (c # cs))"

text \<open>
  Python's \<^verbatim>\<open>int\<close> of a cell: a float is truncated towards zero, NaN raises.
\<close>

definition trunc :: "rat \<Rightarrow> int" where
  "trunc r = (if 0 \<le> r then \<lfloor>r\<rfloor> else \<lceil>r\<rceil>)"

fun py_int :: "cell \<Rightarrow> int option" where
  "py_int CNull = None"
| "py_int (CInt i) = Some i"
| "py_int (CFloat r) = Some (trunc r)"
| "py_int (CStr s) = py_int_str s"

subsection \<open>Reading a frame\<close>

definition cell_at :: "cell list \<Rightarrow> nat \<Rightarrow> cell" where
  "cell_at r i = (if i < length r then r ! i else CNull)"

fun index_of :: "cell \<Rightarrow> cell list \<Rightarrow> nat" where
  "index_of x [] = 0"
| "index_of x (y # ys) = (if x = y then 0 else Suc (index_of x ys))"

definition has_col :: "frame \<Rightarrow> string \<Rightarrow> bool" where
  "has_col df n = (CStr n \<in> set (columns df))"

definition col_idx :: "frame \<Rightarrow> string \<Rightarrow> nat" where
  "col_idx df n = index_of (CStr n) (columns df)"

definition col_count :: "frame \<Rightarrow> string \<Rightarrow> nat" where
  "col_count df n = length (filter (\<lambda>c. c = CStr n) (columns df))"

definition required_columns :: "string list" where
  "required_columns = [''Country'', ''Year'', ''Emissions'']"

definition has_required :: "frame \<Rightarrow> bool" where
  "has_required df = list_all (has_col df) required_columns"

definition notna :: "cell \<Rightarrow> bool" where
  "notna c = (c \<noteq> CNull)"

text \<open>The numeric value of a cell of a numeric column.\<close>

fun cell_num :: "cell \<Rightarrow> rat option" where
  "cell_num (CInt i) = Some (of_int i)"
| "cell_num (CFloat r) = Some r"
| "cell_num c = None"

text \<open>
  Two cells are equal for Python when neither is NaN and they have the same value, an
  integer being equal to the float of the same value. \<open>cell_key\<close> gives equal cells
  one representative.
\<close>

fun cell_key :: "cell \<Rightarrow> cell" where
  "cell_key (CInt i) = CFloat (of_int i)"
| "cell_key c = c"

definition py_eq :: "cell \<Rightarrow> cell \<Rightarrow> bool" where
  "py_eq a b = (a \<noteq> CNull \<and> b \<noteq> CNull \<and> cell_key a = cell_key b)"

text \<open>
  Writing a cell of a row. A row that is too short is filled with missing values first,
  so that reading the written position gives the written value.
\<close>

definition set_cell :: "nat \<Rightarrow> cell \<Rightarrow> cell list \<Rightarrow> cell list" where
  "set_cell i v r =
     (if i < length r then r[i := v] else r @ replicate (i - length r) CNull @ [v])"

definition upd_cell :: "nat \<Rightarrow> (cell \<Rightarrow> cell) \<Rightarrow> cell list \<Rightarrow> cell list" where
  "upd_cell i f r = set_cell i (f (cell_at r i)) r"

text \<open>The cells of a row that are not missing: \<^verbatim>\<open>df.iloc[i].dropna()\<close>.\<close>

definition nonnull :: "cell list \<Rightarrow> cell list" where
  "nonnull r = filter notna r"

section \<open>Layout classification and transformation\<close>

subsection \<open>Wide format: \<^verbatim>\<open>_is_wide_format_with_years\<close>, \<^verbatim>\<open>_transform_wide_to_long\<close>\<close>

text \<open>
  A label is a year column when \<^verbatim>\<open>int(col)\<close> succeeds and gives a value from 2000
  to 2030.
\<close>

definition year_label :: "cell \<Rightarrow> bool" where
  "year_label col = (case py_int col of None \<Rightarrow> False | Some year \<Rightarrow> 2000 \<le> year \<and> year \<le> 2030)"

definition is_wide_format_with_years :: "frame \<Rightarrow> bool" where
  "is_wide_format_with_years df =
     (if length (columns df) < 3 then False
      else 2 \<le> length (filter year_label (tl (columns df))))"

text \<open>The year columns, each with its position in the frame.\<close>

definition year_cols :: "frame \<Rightarrow> (nat \<times> cell) list" where
  "year_cols df = filter (\<lambda>(j, col). year_label col) (enumerate 1 (tl (columns df)))"

text \<open>
  \<^verbatim>\<open>pd.melt\<close> with the first column as the identifier: for each year column in
  turn, one row per row of the frame, holding the identifier, the label of the year
  column and the cell under it. pandas refuses a frame that already has a column named
  as the value column (ValueError). When the first column is itself labelled
  \<^verbatim>\<open>Year\<close>, the renaming to \<^verbatim>\<open>Country\<close> leaves no column of that name and
  the next line fails (KeyError). \<^verbatim>\<open>read_excel\<close> delivers pairwise distinct
  labels; the model reads the columns by position.
\<close>

definition melt_rows :: "frame \<Rightarrow> (nat \<times> cell) list \<Rightarrow> cell list list" where
  "melt_rows df ycs =
     concat (map (\<lambda>(j, col). map (\<lambda>r. [cell_at r 0, col, cell_at r j]) (rows df)) ycs)"

text \<open>\<^verbatim>\<open>astype(int)\<close> of a column: Python's \<^verbatim>\<open>int\<close> of every cell.\<close>

definition astype_int_cell :: "cell \<Rightarrow> cell" where
  "astype_int_cell c = (case py_int c of None \<Rightarrow> c | Some i \<Rightarrow> CInt i)"

definition astype_int :: "nat \<Rightarrow> cell list list \<Rightarrow> error + cell list list" where
  "astype_int i rs =
     (if \<forall>r \<in> set rs. py_int (cell_at r i) \<noteq> None
      then Inr (map (upd_cell i astype_int_cell) rs) else Inl ValueError)"

text \<open>\<^verbatim>\<open>pd.to_numeric(..., errors='coerce')\<close> of a cell.\<close>

fun to_numeric_cell :: "pylib \<Rightarrow> cell \<Rightarrow> cell" where
  "to_numeric_cell L (CStr s) =
     (case to_numeric_str L s of None \<Rightarrow> CNull | Some v \<Rightarrow> CFloat v)"
| "to_numeric_cell L c = c"

definition str_strip_cell :: "pylib \<Rightarrow> cell \<Rightarrow> cell" where
  "str_strip_cell L c = CStr (strip (py_str L c))"

definition clean_country_rows :: "pylib \<Rightarrow> nat \<Rightarrow> cell list list \<Rightarrow> cell list list" where
  "clean_country_rows L ci rs =
     filter (\<lambda>r. cell_at r ci \<noteq> CStr '''')
       (filter (\<lambda>r. cell_at r ci \<noteq> CStr ''nan'')
          (map (upd_cell ci (str_strip_cell L)) rs))"

definition transform_wide_to_long :: "pylib \<Rightarrow> frame \<Rightarrow> error + frame" where
  "transform_wide_to_long L df =
     (case columns df of
        [] \<Rightarrow> Inl IndexError
      | country_col # other \<Rightarrow>
          if year_cols df = [] then Inr df
          else if CStr ''Emissions'' \<in> set (columns df) then Inl ValueError
          else if country_col = CStr ''Year'' then Inl KeyError
          else
            (case astype_int 1 (melt_rows df (year_cols df)) of
               Inl e \<Rightarrow> Inl e
             | Inr long1 \<Rightarrow>
                 let long2 = map (upd_cell 2 (to_numeric_cell L)) long1;
                     long3 = filter (\<lambda>r. notna (cell_at r 2)) long2;
                     long4 = clean_country_rows L 0 long3
                 in Inr \<lparr> columns = [CStr ''Country'', CStr ''Year'', CStr ''Emissions''],
                          rows = long4 \<rparr>))"

subsection \<open>Agency report: \<^verbatim>\<open>_parse_oecd_format\<close>\<close>

definition year_tokens :: "string list" where
  "year_tokens = [''2022'', ''2021'', ''2020'', ''2019'']"

definition is_time_row :: "pylib \<Rightarrow> cell list \<Rightarrow> bool" where
  "is_time_row L r =
     (let row_data = map (py_str L) (nonnull r)
      in 5 < length row_data \<and> list_ex (\<lambda>val. list_ex (contains val) year_tokens) row_data)"

definition find_time_row :: "pylib \<Rightarrow> frame \<Rightarrow> nat option" where
  "find_time_row L df =
     List.find (\<lambda>i. is_time_row L (rows df ! i)) [0 ..< min 15 (length (rows df))]"

text \<open>
  The \<^verbatim>\<open>re.sub\<close> on the country text: leading middle dots (code point 183)
  and white space are removed. The figure space the pattern names as well is white
  space already, and lies outside the 8-bit characters of this model.
\<close>

definition lstrip_indent :: "string \<Rightarrow> string" where
  "lstrip_indent s = dropWhile (\<lambda>c. c = CHR 0xB7 \<or> py_isspace c) s"

text \<open>Python's \<^verbatim>\<open>float\<close> of a cell; \<open>None\<close> is ValueError.\<close>

fun py_float :: "pylib \<Rightarrow> cell \<Rightarrow> cell option" where
  "py_float L CNull = Some CNull"
| "py_float L (CInt i) = Some (CFloat (of_int i))"
| "py_float L (CFloat r) = Some (CFloat r)"
| "py_float L (CStr s) =
     (case float_of_str L s of
        None \<Rightarrow> None
      | Some None \<Rightarrow> Some CNull
      | Some (Some v) \<Rightarrow> Some (CFloat v))"

text \<open>
  \<^verbatim>\<open>_extract_year_from_time_period\<close>: the first four consecutive digits of the
  label, kept when they give a year from 1900 to 2030.
\<close>

fun first4digits :: "string \<Rightarrow> string option" where
  "first4digits (a # b # c # d # rest) =
     (if is_digit a \<and> is_digit b \<and> is_digit c \<and> is_digit d then Some [a, b, c, d]
      else first4digits (b # c # d # rest))"
| "first4digits s = None"

definition extract_year_from_time_period :: "string \<Rightarrow> int option" where
  "extract_year_from_time_period time_str =
     (case first4digits time_str of
        None \<Rightarrow> None
      | Some ds \<Rightarrow>
          let year = int_of_digits ds
          in if 1900 \<le> year \<and> year \<le> 2030 then Some year else None)"

text \<open>
  The records of one data row: the country is the first cell that is not missing, and
  the remaining cells are paired with the time periods by position. A value that
  \<^verbatim>\<open>float\<close> rejects is skipped.
\<close>

definition country_records ::
  "pylib \<Rightarrow> cell list \<Rightarrow> cell list \<Rightarrow> (string \<times> string \<times> cell) list" where
  "country_records L time_periods r =
     (let row_data = nonnull r in
      if 5 < length row_data then
        let country = lstrip_indent (strip (py_str L (hd row_data))) in
        if country \<noteq> [] \<and> country \<noteq> ''nan'' \<and> country \<noteq> ''NaN'' then
          let vals = tl row_data in
          List.map_filter
            (\<lambda>(j, time_period).
               if j < length vals then
                 (case py_float L (vals ! j) of
                    None \<Rightarrow> None
                  | Some emission_value \<Rightarrow>
                      Some (country, py_str L time_period, emission_value))
               else None)
            (enumerate 0 time_periods)
        else []
      else [])"

text \<open>
  The Year column that \<^verbatim>\<open>apply\<close> builds: integers when every label gives a year,
  else floats with NaN for the labels that give none.
\<close>

definition year_cell :: "bool \<Rightarrow> int option \<Rightarrow> cell" where
  "year_cell all_found y =
     (case y of None \<Rightarrow> CNull | Some v \<Rightarrow> if all_found then CInt v else CFloat (of_int v))"

definition oecd_rows :: "(string \<times> string \<times> cell) list \<Rightarrow> cell list list" where
  "oecd_rows processed_data =
     (let all_found =
            list_all (\<lambda>(country, period, emission).
                        extract_year_from_time_period period \<noteq> None) processed_data
      in map (\<lambda>(country, period, emission).
                [CStr country, year_cell all_found (extract_year_from_time_period period),
                 emission, CStr period]) processed_data)"

text \<open>
  \<open>processed_data\<close>: the records of the rows from the second row after the time row
  on, with the time periods read from the time row after its first column.
\<close>

definition processed_data :: "pylib \<Rightarrow> frame \<Rightarrow> nat \<Rightarrow> (string \<times> string \<times> cell) list" where
  "processed_data L df time_row =
     (let time_periods = nonnull (tl (rows df ! time_row))
      in concat (map (country_records L time_periods) (drop (time_row + 2) (rows df))))"

definition parse_oecd_format :: "pylib \<Rightarrow> frame \<Rightarrow> frame" where
  "parse_oecd_format L df =
     (case find_time_row L df of
        None \<Rightarrow> df
      | Some time_row \<Rightarrow>
          if processed_data L df time_row \<noteq> [] then
            \<lparr> columns = [CStr ''Country'', CStr ''Year'', CStr ''Emissions'',
                          CStr ''Original_Time_Period''],
              rows = oecd_rows (processed_data L df time_row) \<rparr>
          else df)"

subsection \<open>The stage: \<^verbatim>\<open>_handle_oecd_structure\<close>\<close>

definition join_sp :: "string list \<Rightarrow> string" where
  "join_sp ss = (case ss of [] \<Rightarrow> [] | s # rest \<Rightarrow> foldl (\<lambda>acc t. acc @ '' '' @ t) s rest)"

definition oecd_keywords :: "string list" where
  "oecd_keywords = [''reference area'', ''time period'', ''maritime'', ''emissions'']"

definition is_indicator_row :: "pylib \<Rightarrow> cell list \<Rightarrow> bool" where
  "is_indicator_row L r =
     (let row_str = join_sp (map (py_str L) (nonnull r))
      in list_ex (\<lambda>indicator. contains (lower row_str) indicator) oecd_keywords)"

definition oecd_indicators :: "pylib \<Rightarrow> frame \<Rightarrow> nat list" where
  "oecd_indicators L df =
     filter (\<lambda>i. is_indicator_row L (rows df ! i)) [0 ..< min 20 (length (rows df))]"

text \<open>
  The body of the \<^verbatim>\<open>try\<close> block, with its exceptions as values, and the function
  itself, which returns the frame it was given when the body raises.
\<close>

definition oecd_structure_body :: "pylib \<Rightarrow> frame \<Rightarrow> error + frame" where
  "oecd_structure_body L df =
     (if is_wide_format_with_years df then transform_wide_to_long L df
      else if 2 \<le> length (oecd_indicators L df) then Inr (parse_oecd_format L df)
      else Inr df)"

definition handle_oecd_structure :: "pylib \<Rightarrow> frame \<Rightarrow> frame" where
  "handle_oecd_structure L df =
     (case oecd_structure_body L df of Inl e \<Rightarrow> df | Inr result \<Rightarrow> result)"

section \<open>Column mapping, cleaning and validation\<close>

subsection \<open>\<^verbatim>\<open>_map_columns\<close>\<close>

definition country_variations :: "string list" where
  "country_variations = [''Country'', ''COUNTRY'', ''Countries'', ''COUNTRIES'', ''Country Name'',
     ''Region'', ''REGION'', ''Location'', ''LOCATION'', ''Reference area'', ''REFERENCE_AREA'',
     ''REF_AREA'', ''Reference Area'']"

definition year_variations :: "string list" where
  "year_variations = [''Year'', ''YEAR'', ''Time'', ''TIME'', ''Period'', ''Date'', ''TIME_PERIOD'',
     ''Time period'', ''TIME_PERIOD'', ''Time Period'', ''TIME PERIOD'']"

definition emissions_variations :: "string list" where
  "emissions_variations = [''Emissions'', ''EMISSIONS'', ''CO2'', ''CO2_EMISSIONS'', ''Value'',
     ''VALUE'', ''Tonnes'', ''Mt CO2'', ''CO2 Emissions'', ''Carbon Emissions'', ''Emission'',
     ''OBS_VALUE'', ''Obs Value'', ''Observation Value'']"

text \<open>The \<^verbatim>\<open>if\<close>/\<^verbatim>\<open>elif\<close> chain of the loop body, for one column.\<close>

definition canonical_name :: "pylib \<Rightarrow> cell \<Rightarrow> string option" where
  "canonical_name L col =
     (let col_str = strip (py_str L col) in
      if list_ex (\<lambda>country_var. lower country_var = lower col_str) country_variations
        then Some ''Country''
      else if list_ex (\<lambda>year_var. lower year_var = lower col_str) year_variations
        then Some ''Year''
      else if list_ex (\<lambda>emission_var. lower emission_var = lower col_str) emissions_variations
        then Some ''Emissions''
      else if list_ex (\<lambda>emission_var. contains (lower col_str) (lower emission_var))
                emissions_variations
        then Some ''Emissions''
      else None)"

text \<open>
  The loop fills the dictionary \<^verbatim>\<open>column_mapping\<close>, whose keys are compared as
  Python compares labels (\<open>cell_key\<close>); \<^verbatim>\<open>rename\<close> then looks every label up.
\<close>

fun build_mapping :: "pylib \<Rightarrow> cell list \<Rightarrow> (cell \<rightharpoonup> string) \<Rightarrow> (cell \<rightharpoonup> string)" where
  "build_mapping L [] column_mapping = column_mapping"
| "build_mapping L (col # cols) column_mapping =
     build_mapping L cols
       (case canonical_name L col of
          None \<Rightarrow> column_mapping
        | Some name \<Rightarrow> column_mapping(cell_key col \<mapsto> name))"

definition rename_columns :: "(cell \<rightharpoonup> string) \<Rightarrow> cell list \<Rightarrow> cell list" where
  "rename_columns column_mapping cols =
     map (\<lambda>col. case column_mapping (cell_key col) of None \<Rightarrow> col | Some name \<Rightarrow> CStr name) cols"

definition map_columns :: "pylib \<Rightarrow> frame \<Rightarrow> frame" where
  "map_columns L df =
     df \<lparr> columns := rename_columns (build_mapping L (columns df) Map.empty) (columns df) \<rparr>"

subsection \<open>\<^verbatim>\<open>_parse_time_period\<close>\<close>

text \<open>
  \<^verbatim>\<open>pd.to_numeric\<close> of a text of digits: its value, and NaN for the empty text.
\<close>

definition to_numeric_digits :: "string \<Rightarrow> cell" where
  "to_numeric_digits ds = (if ds = [] then CNull else CInt (int_of_digits ds))"

definition parse_time_value :: "pylib \<Rightarrow> cell \<Rightarrow> cell" where
  "parse_time_value L v =
     (let str_value = strip (py_str L v) in
      if CHR ''-'' \<in> set str_value then
        to_numeric_digits (digits_only (before CHR ''-'' str_value))
      else if CHR ''M'' \<in> set (upper str_value) then
        to_numeric_digits (digits_only (before CHR ''M'' (upper str_value)))
      else
        let numeric_value = digits_only str_value
        in if numeric_value \<noteq> [] then to_numeric_digits numeric_value else CNull)"

subsection \<open>\<^verbatim>\<open>_clean_data\<close>\<close>

text \<open>
  \<^verbatim>\<open>dropna(how='all')\<close> removes the rows without any value, and
  \<^verbatim>\<open>dropna(axis=1, how='all')\<close> then removes the columns without any value in
  the rows that are left. The rows of the result have one cell per column.
\<close>

definition keep_cols :: "frame \<Rightarrow> nat list" where
  "keep_cols df =
     filter (\<lambda>j. \<exists>r \<in> set (rows df). notna (cell_at r j)) [0 ..< length (columns df)]"

definition select_cols :: "nat list \<Rightarrow> frame \<Rightarrow> frame" where
  "select_cols js df =
     \<lparr> columns = map (\<lambda>j. columns df ! j) js, rows = map (\<lambda>r. map (cell_at r) js) (rows df) \<rparr>"

definition dropna_all :: "frame \<Rightarrow> frame" where
  "dropna_all df =
     (let df1 = df \<lparr> rows := filter (\<lambda>r. list_ex notna r) (rows df) \<rparr>
      in select_cols (keep_cols df1) df1)"

text \<open>
  The frame after the layout stage with its columns mapped: the mapping runs only when
  one of the three names is missing.
\<close>

definition mapped :: "pylib \<Rightarrow> frame \<Rightarrow> frame" where
  "mapped L df =
     (let df1 = dropna_all df in if has_required df1 then df1 else map_columns L df1)"

text \<open>
  Each of the three steps runs only when its column is present. A name that labels
  several columns selects a frame instead of a column: the frame has no
  \<^verbatim>\<open>str\<close> accessor (AttributeError) and \<^verbatim>\<open>to_numeric\<close> refuses it
  (TypeError). \<^verbatim>\<open>_parse_time_period\<close> returns one value per selected column,
  which does not fit the index of the rows (ValueError); should there be as many rows as
  such columns, \<^verbatim>\<open>sort_values\<close> refuses the repeated label in the end
  (ValueError as well).
\<close>

definition clean_country :: "pylib \<Rightarrow> frame \<Rightarrow> error + frame" where
  "clean_country L df =
     (if \<not> has_col df ''Country'' then Inr df
      else if 1 < col_count df ''Country'' then Inl AttributeError
      else Inr (df \<lparr> rows := clean_country_rows L (col_idx df ''Country'') (rows df) \<rparr>))"

text \<open>
  The Year column is of an integer type exactly when each of its cells is an integer;
  \<^verbatim>\<open>astype(int)\<close> is then the identity.
\<close>

fun is_int :: "cell \<Rightarrow> bool" where
  "is_int (CInt i) = True"
| "is_int c = False"

definition is_integer_dtype :: "nat \<Rightarrow> cell list list \<Rightarrow> bool" where
  "is_integer_dtype i rs = (\<forall>r \<in> set rs. is_int (cell_at r i))"

definition clean_year :: "pylib \<Rightarrow> frame \<Rightarrow> error + frame" where
  "clean_year L df =
     (if \<not> has_col df ''Year'' then Inr df
      else if 1 < col_count df ''Year'' then Inl ValueError
      else
        let yi = col_idx df ''Year'';
            rows1 = (if \<not> is_integer_dtype yi (rows df)
                     then filter (\<lambda>r. notna (cell_at r yi))
                            (map (upd_cell yi (parse_time_value L)) (rows df))
                     else rows df)
        in case astype_int yi rows1 of
             Inl e \<Rightarrow> Inl e
           | Inr rows2 \<Rightarrow> Inr (df \<lparr> rows := rows2 \<rparr>))"

definition nonneg :: "cell \<Rightarrow> bool" where
  "nonneg c = (case cell_num c of None \<Rightarrow> False | Some v \<Rightarrow> 0 \<le> v)"

definition clean_emissions :: "pylib \<Rightarrow> frame \<Rightarrow> error + frame" where
  "clean_emissions L df =
     (if \<not> has_col df ''Emissions'' then Inr df
      else if 1 < col_count df ''Emissions'' then Inl TypeError
      else
        let ei = col_idx df ''Emissions'' in
        Inr (df \<lparr> rows :=
               filter (\<lambda>r. nonneg (cell_at r ei))
                 (filter (\<lambda>r. notna (cell_at r ei))
                    (map (upd_cell ei (to_numeric_cell L)) (rows df))) \<rparr>))"

definition drop_missing :: "frame \<Rightarrow> frame" where
  "drop_missing df =
     (if has_required df
      then df \<lparr> rows := filter (\<lambda>r. list_all (\<lambda>n. notna (cell_at r (col_idx df n)))
                                   required_columns) (rows df) \<rparr>
      else df)"

text \<open>
  \<^verbatim>\<open>sort_values\<close> by Country, then Year, each when present: a stable sort on the
  text of the Country cell and the integer of the Year cell. It refuses a label that
  names several columns (ValueError).
\<close>

fun text_of :: "cell \<Rightarrow> string" where
  "text_of (CStr s) = s"
| "text_of c = []"

fun int_of :: "cell \<Rightarrow> int" where
  "int_of (CInt i) = i"
| "int_of c = 0"

definition sort_cols_key :: "frame \<Rightarrow> cell list \<Rightarrow> string \<times> int" where
  "sort_cols_key df r =
     (if has_col df ''Country'' then text_of (cell_at r (col_idx df ''Country'')) else [],
      if has_col df ''Year'' then int_of (cell_at r (col_idx df ''Year'')) else 0)"

definition sort_frame :: "frame \<Rightarrow> error + frame" where
  "sort_frame df =
     (if 1 < col_count df ''Country'' \<or> 1 < col_count df ''Year'' then Inl ValueError
      else Inr (df \<lparr> rows := sort_key (sort_cols_key df) (rows df) \<rparr>))"

definition clean_data :: "pylib \<Rightarrow> frame \<Rightarrow> error + frame" where
  "clean_data L df =
     (case clean_country L (mapped L df) of
        Inl e \<Rightarrow> Inl e
      | Inr df1 \<Rightarrow>
          (case clean_year L df1 of
             Inl e \<Rightarrow> Inl e
           | Inr df2 \<Rightarrow>
               (case clean_emissions L df2 of
                  Inl e \<Rightarrow> Inl e
                | Inr df3 \<Rightarrow> sort_frame (drop_missing df3))))"

subsection \<open>\<^verbatim>\<open>_validate_data\<close> and \<^verbatim>\<open>load_and_clean_data\<close>\<close>

text \<open>
  The validator raises \<^verbatim>\<open>ValueError\<close> with one of two messages. The first names
  the missing and the available columns (the spec's SchemaError), the second says that
  no row is left (the spec's EmptyDatasetError). Its warnings change nothing and are
  left out.
\<close>

definition missing_columns :: "frame \<Rightarrow> string list" where
  "missing_columns df = filter (\<lambda>col. \<not> has_col df col) required_columns"

definition validate_data :: "frame \<Rightarrow> error + unit" where
  "validate_data df =
     (if missing_columns df \<noteq> [] then Inl (SchemaError (missing_columns df) (columns df))
      else if rows df = [] then Inl EmptyDatasetError
      else Inr ())"

text \<open>
  \<^verbatim>\<open>load_and_clean_data\<close> from the sheet it has read: the layout stage, the
  cleaner, the validator. The function wraps every exception in a new one with the
  same message; the model keeps the exception itself.
\<close>

definition load_and_clean_data :: "pylib \<Rightarrow> frame \<Rightarrow> error + frame" where
  "load_and_clean_data L sheet =
     (case clean_data L (handle_oecd_structure L sheet) of
        Inl e \<Rightarrow> Inl e
      | Inr df \<Rightarrow> (case validate_data df of Inl e \<Rightarrow> Inl e | Inr u \<Rightarrow> Inr df))"

section \<open>Trends per country: \<^verbatim>\<open>calculate_trends\<close>\<close>

text \<open>
  The function returns an empty frame when one of the three columns is missing.
  Otherwise it visits the distinct values of the Country column in order of first
  appearance, selects the rows of each value, sorts them by Year and, when more than
  one row is left, appends one trend row.

  Cells are compared with \<open>py_eq\<close>; \<^verbatim>\<open>unique\<close> keeps one NaN. Sorting a column that holds both texts and numbers raises TypeError, as does
  comparing a text with 0 or subtracting from it. A label that names several columns
  selects a frame instead of a column: \<^verbatim>\<open>unique\<close> is then missing
  (AttributeError), \<^verbatim>\<open>sort_values\<close> refuses the label and the truth value of
  the comparison is ambiguous (ValueError). \<^verbatim>\<open>sort_values\<close> is modelled by a
  stable sort, NaN last.
\<close>

datatype direction = Increasing | Decreasing | Stable

record trend =
  t_country :: cell
  first_year :: cell
  last_year :: cell
  first_year_emissions :: cell
  last_year_emissions :: cell
  trend_percentage :: cell
  trend_direction :: direction

fun unique :: "cell list \<Rightarrow> cell list" where
  "unique [] = []"
| "unique (x # xs) = x # filter (\<lambda>y. cell_key y \<noteq> cell_key x) (unique xs)"

fun is_text :: "cell \<Rightarrow> bool" where
  "is_text (CStr s) = True"
| "is_text c = False"

definition is_number :: "cell \<Rightarrow> bool" where
  "is_number c = (cell_num c \<noteq> None)"

fun year_key :: "cell \<Rightarrow> nat \<times> rat \<times> string" where
  "year_key CNull = (1, 0, [])"
| "year_key (CInt i) = (0, of_int i, [])"
| "year_key (CFloat r) = (0, r, [])"
| "year_key (CStr s) = (0, 0, s)"

definition sort_by_year :: "nat \<Rightarrow> cell list list \<Rightarrow> error + cell list list" where
  "sort_by_year yi rs =
     (if (\<exists>r \<in> set rs. is_text (cell_at r yi)) \<and> (\<exists>r \<in> set rs. is_number (cell_at r yi))
      then Inl TypeError
      else Inr (sort_key (\<lambda>r. year_key (cell_at r yi)) rs))"

text \<open>
  \<^verbatim>\<open>trend_pct\<close> of the first and the last emissions cell: the percentage change
  when the first value is positive, else the integer 0. A comparison with NaN is false
  and arithmetic on NaN gives NaN.
\<close>

fun trend_pct :: "cell \<Rightarrow> cell \<Rightarrow> error + cell" where
  "trend_pct (CStr s) l = Inl TypeError"
| "trend_pct CNull l = Inr (CInt 0)"
| "trend_pct f l =
     (case cell_num f of
        None \<Rightarrow> Inr (CInt 0)
      | Some fv \<Rightarrow>
          if 0 < fv then
            (case l of
               CStr s \<Rightarrow> Inl TypeError
             | CNull \<Rightarrow> Inr CNull
             | _ \<Rightarrow> (case cell_num l of
                       None \<Rightarrow> Inr CNull
                     | Some lv \<Rightarrow> Inr (CFloat ((lv - fv) / fv * 100))))
          else Inr (CInt 0))"

definition direction_of :: "cell \<Rightarrow> direction" where
  "direction_of p =
     (case cell_num p of
        None \<Rightarrow> Stable
      | Some v \<Rightarrow> if 0 < v then Increasing else if v < 0 then Decreasing else Stable)"

definition country_rows :: "frame \<Rightarrow> cell \<Rightarrow> cell list list" where
  "country_rows df c = filter (\<lambda>r. py_eq (cell_at r (col_idx df ''Country'')) c) (rows df)"

definition trend_for :: "frame \<Rightarrow> cell \<Rightarrow> error + trend option" where
  "trend_for df c =
     (if 1 < col_count df ''Year'' then Inl ValueError
      else case sort_by_year (col_idx df ''Year'') (country_rows df c) of
        Inl e \<Rightarrow> Inl e
      | Inr country_data \<Rightarrow>
          if 1 < length country_data then
            if 1 < col_count df ''Emissions'' then Inl ValueError
            else
              let first_year_emissions = cell_at (hd country_data) (col_idx df ''Emissions'');
                  last_year_emissions = cell_at (last country_data) (col_idx df ''Emissions'')
              in case trend_pct first_year_emissions last_year_emissions of
                   Inl e \<Rightarrow> Inl e
                 | Inr p \<Rightarrow> Inr (Some \<lparr>
                     t_country = c,
                     first_year = cell_at (hd country_data) (col_idx df ''Year''),
                     last_year = cell_at (last country_data) (col_idx df ''Year''),
                     first_year_emissions = first_year_emissions,
                     last_year_emissions = last_year_emissions,
                     trend_percentage = p,
                     trend_direction = direction_of p \<rparr>)
          else Inr None)"

fun trends_loop :: "frame \<Rightarrow> cell list \<Rightarrow> error + trend list" where
  "trends_loop df [] = Inr []"
| "trends_loop df (c # cs) =
     (case trend_for df c of
        Inl e \<Rightarrow> Inl e
      | Inr None \<Rightarrow> trends_loop df cs
      | Inr (Some t) \<Rightarrow>
          (case trends_loop df cs of Inl e \<Rightarrow> Inl e | Inr ts \<Rightarrow> Inr (t # ts)))"

definition calculate_trends :: "frame \<Rightarrow> error + trend list" where
  "calculate_trends df =
     (if \<not> has_col df ''Country'' \<or> \<not> has_col df ''Year'' \<or> \<not> has_col df ''Emissions''
      then Inr []
      else if 1 < col_count df ''Country'' then Inl AttributeError
      else trends_loop df
             (unique (map (\<lambda>r. cell_at r (col_idx df ''Country'')) (rows df))))"

text \<open>
  A canonical table, as \<^verbatim>\<open>load_and_clean_data\<close> returns it: the three columns,
  each once, with a text, an integer and a number in every row.
\<close>

definition canonical :: "frame \<Rightarrow> bool" where
  "canonical df =
     (col_count df ''Country'' = 1 \<and> col_count df ''Year'' = 1 \<and> col_count df ''Emissions'' = 1
      \<and> (\<forall>r \<in> set (rows df).
            is_text (cell_at r (col_idx df ''Country''))
          \<and> (\<exists>y. cell_at r (col_idx df ''Year'') = CInt y)
          \<and> is_number (cell_at r (col_idx df ''Emissions''))))"

section \<open>Vocabulary of the statements\<close>


text \<open>None of the three canonical names labels more than one column.\<close>

definition single_canonical :: "frame \<Rightarrow> bool" where
  "single_canonical df =
     (col_count df ''Country'' \<le> 1 \<and> col_count df ''Year'' \<le> 1 \<and> col_count df ''Emissions'' \<le> 1)"

text \<open>
  The record that the spec of the wide transformer gives for a row and a year column at
  position \<open>j\<close> with label \<open>col\<close>: the trimmed text of the first cell, the year of the
  label and the coerced cell; none when the cell is not coercible or when the country
  text is empty or \<^verbatim>\<open>nan\<close>.
\<close>

definition wide_record :: "pylib \<Rightarrow> nat \<Rightarrow> cell \<Rightarrow> cell list \<Rightarrow> cell list option" where
  "wide_record L j col r =
     (let country = strip (py_str L (cell_at r 0));
          emissions = to_numeric_cell L (cell_at r j)
      in if emissions = CNull \<or> country = ''nan'' \<or> country = [] then None
         else Some [CStr country, astype_int_cell col, emissions])"





text \<open>Four consecutive digits stand at position \<open>i\<close> of a text.\<close>

definition digits4_at :: "string \<Rightarrow> nat \<Rightarrow> bool" where
  "digits4_at s i = (i + 4 \<le> length s \<and> list_all is_digit (take 4 (drop i s)))"

text \<open>
  The sheet is routed to the agency-report transformer, which finds its time row and
  produces records.
\<close>

definition agency_report :: "pylib \<Rightarrow> frame \<Rightarrow> bool" where
  "agency_report L df =
     (\<not> is_wide_format_with_years df \<and> 2 \<le> length (oecd_indicators L df)
      \<and> (case find_time_row L df of
            None \<Rightarrow> False
          | Some time_row \<Rightarrow> processed_data L df time_row \<noteq> []))"

section \<open>Rows that stem from rows\<close>

text \<open>
  The cleaning steps rewrite one column each and drop rows. \<open>from_rows S rs' rs\<close>
  says that every row of \<open>rs'\<close> agrees with some row of \<open>rs\<close> outside the positions
  \<open>S\<close>.
\<close>

definition agrees_off :: "nat set \<Rightarrow> cell list \<Rightarrow> cell list \<Rightarrow> bool" where
  "agrees_off S r' r = (\<forall>j. j \<notin> S \<longrightarrow> cell_at r' j = cell_at r j)"

definition from_rows :: "nat set \<Rightarrow> cell list list \<Rightarrow> cell list list \<Rightarrow> bool" where
  "from_rows S rs' rs = (\<forall>r' \<in> set rs'. \<exists>r \<in> set rs. agrees_off S r' r)"

section \<open>Example tables\<close>

text \<open>
  An instance of the library functions for the examples: numerals are texts of decimal
  digits, \<^verbatim>\<open>nan\<close> denotes NaN, and a float is written with one zero after the
  point (as Python writes a float of integral value).
\<close>

definition example_lib :: pylib where
  "example_lib = \<lparr>
     float_str = (\<lambda>r. str_int \<lfloor>r\<rfloor> @ ''.0''),
     float_of_str = (\<lambda>s. if s \<noteq> [] \<and> list_all is_digit s
                           then Some (Some (of_int (int_of_digits s)))
                           else if s = ''nan'' then Some None else None),
     to_numeric_str = (\<lambda>s. if s \<noteq> [] \<and> list_all is_digit s
                             then Some (of_int (int_of_digits s)) else None) \<rparr>"

text \<open>Scenario A of the spec: a wide table, and what the pipeline returns for it.\<close>

definition scenario_a :: frame where
  "scenario_a = \<lparr>
     columns = [CStr ''Country'', CStr ''2020'', CStr ''2021''],
     rows = [[CStr ''USA'', CStr ''10'', CStr ''20''],
             [CStr ''France'', CStr ''nan'', CStr ''5'']] \<rparr>"

definition scenario_a_long :: frame where
  "scenario_a_long = \<lparr>
     columns = [CStr ''Country'', CStr ''Year'', CStr ''Emissions''],
     rows = [[CStr ''USA'', CInt 2020, CFloat 10], [CStr ''USA'', CInt 2021, CFloat 20],
             [CStr ''France'', CInt 2021, CFloat 5]] \<rparr>"

definition scenario_a_clean :: frame where
  "scenario_a_clean = \<lparr>
     columns = [CStr ''Country'', CStr ''Year'', CStr ''Emissions''],
     rows = [[CStr ''France'', CInt 2021, CFloat 5], [CStr ''USA'', CInt 2020, CFloat 10],
             [CStr ''USA'', CInt 2021, CFloat 20]] \<rparr>"

text \<open>
  A long table with a padded country, a missing country, a negative value, a blank
  country and a year given as a period.
\<close>

definition dirty_table :: frame where
  "dirty_table = \<lparr>
     columns = [CStr ''Country'', CStr ''Year'', CStr ''Emissions''],
     rows = [[CStr '' USA '', CInt 2021, CStr ''7''],
             [CNull, CInt 2020, CInt 3],
             [CStr ''Chile'', CInt 2020, CInt (- 1)],
             [CStr ''  '', CInt 2020, CInt 5],
             [CStr ''Chile'', CStr ''2019-M03'', CInt 4]] \<rparr>"

definition dirty_table_clean :: frame where
  "dirty_table_clean = \<lparr>
     columns = [CStr ''Country'', CStr ''Year'', CStr ''Emissions''],
     rows = [[CStr ''Chile'', CInt 2019, CInt 4], [CStr ''USA'', CInt 2021, CFloat 7]] \<rparr>"

text \<open>A wide table whose only row has a country label between two blanks.\<close>

definition padded_wide :: frame where
  "padded_wide = \<lparr>
     columns = [CStr ''Country'', CStr ''2020'', CStr ''2021''],
     rows = [[CStr '' USA '', CStr ''10'', CStr ''20'']] \<rparr>"









text \<open>
  A cleaned table with a rising, a falling and a constant country and a country with a
  single observation.
\<close>

definition trend_table :: frame where
  "trend_table = \<lparr>
     columns = [CStr ''Country'', CStr ''Year'', CStr ''Emissions''],
     rows = [[CStr ''France'', CInt 2020, CFloat 8], [CStr ''France'', CInt 2021, CFloat 6],
             [CStr ''Japan'', CInt 2020, CFloat 5], [CStr ''Japan'', CInt 2021, CFloat 5],
             [CStr ''Peru'', CInt 2021, CFloat 3],
             [CStr ''USA'', CInt 2020, CFloat 10], [CStr ''USA'', CInt 2021, CInt 20]] \<rparr>"

definition trend_rows :: "trend list" where
  "trend_rows = [
     \<lparr> t_country = CStr ''France'', first_year = CInt 2020, last_year = CInt 2021,
       first_year_emissions = CFloat 8, last_year_emissions = CFloat 6,
       trend_percentage = CFloat (- 25), trend_direction = Decreasing \<rparr>,
     \<lparr> t_country = CStr ''Japan'', first_year = CInt 2020, last_year = CInt 2021,
       first_year_emissions = CFloat 5, last_year_emissions = CFloat 5,
       trend_percentage = CFloat 0, trend_direction = Stable \<rparr>,
     \<lparr> t_country = CStr ''USA'', first_year = CInt 2020, last_year = CInt 2021,
       first_year_emissions = CFloat 10, last_year_emissions = CInt 20,
       trend_percentage = CFloat 100, trend_direction = Increasing \<rparr>]"

section \<open>Properties of the cleaner and the pipeline\<close>

lemma cell_at_set_cell: "cell_at (set_cell i v r) j = (if j = i then v else cell_at r j)"
  by (auto simp: cell_at_def set_cell_def nth_append)

lemma cell_at_upd_cell: "cell_at (upd_cell i f r) j = (if j = i then f (cell_at r i) else cell_at r j)"
  by (simp add: upd_cell_def cell_at_set_cell)

lemma index_of_nth: "x \<in> set xs \<Longrightarrow> xs ! index_of x xs = x \<and> index_of x xs < length xs"
  by (induction xs) auto

lemma col_idx_neq:
  "has_col df a \<Longrightarrow> has_col df b \<Longrightarrow> a \<noteq> b \<Longrightarrow> col_idx df a \<noteq> col_idx df b"
  using index_of_nth[of "CStr a" "columns df"] index_of_nth[of "CStr b" "columns df"]
  by (auto simp: has_col_def col_idx_def)

lemma has_col_rows [simp]: "has_col (df\<lparr>rows := rs\<rparr>) n = has_col df n"
  by (simp add: has_col_def)

lemma col_idx_rows [simp]: "col_idx (df\<lparr>rows := rs\<rparr>) n = col_idx df n"
  by (simp add: col_idx_def)

lemma col_count_rows [simp]: "col_count (df\<lparr>rows := rs\<rparr>) n = col_count df n"
  by (simp add: col_count_def)

lemma has_required_rows [simp]: "has_required (df\<lparr>rows := rs\<rparr>) = has_required df"
  by (simp add: has_required_def required_columns_def)

lemma has_col_count: "has_col df n \<longleftrightarrow> 0 < col_count df n"
  by (auto simp: has_col_def col_count_def filter_empty_conv)

lemma from_rows_refl: "from_rows S rs rs"
  by (auto simp: from_rows_def agrees_off_def)

lemma from_rows_trans:
  "from_rows S rs2 rs1 \<Longrightarrow> from_rows T rs1 rs0 \<Longrightarrow> from_rows (S \<union> T) rs2 rs0"
  unfolding from_rows_def agrees_off_def by (metis UnCI)

lemma from_rows_mono: "from_rows S rs' rs \<Longrightarrow> S \<subseteq> T \<Longrightarrow> from_rows T rs' rs"
  unfolding from_rows_def agrees_off_def by blast

lemma from_rows_filter: "from_rows S rs' rs \<Longrightarrow> from_rows S (filter P rs') rs"
  by (auto simp: from_rows_def)

lemma from_rows_subset: "set rs' \<subseteq> set rs \<Longrightarrow> from_rows S rs' rs"
  by (auto simp: from_rows_def agrees_off_def)

lemma from_rows_map_upd: "from_rows {i} (map (upd_cell i f) rs) rs"
  by (auto simp: from_rows_def agrees_off_def cell_at_upd_cell)

lemma from_rows_keep:
  "from_rows S rs' rs \<Longrightarrow> i \<notin> S \<Longrightarrow> \<forall>r \<in> set rs. P (cell_at r i) \<Longrightarrow> \<forall>r' \<in> set rs'. P (cell_at r' i)"
  unfolding from_rows_def agrees_off_def by metis

lemma clean_country_rows_cell:
  "r \<in> set (clean_country_rows L ci rs) \<Longrightarrow>
     \<exists>s. cell_at r ci = CStr s \<and> s \<noteq> ''nan'' \<and> s \<noteq> ''''"
  by (auto simp: clean_country_rows_def cell_at_upd_cell str_strip_cell_def)

lemma clean_country_rows_from: "from_rows {ci} (clean_country_rows L ci rs) rs"
  unfolding clean_country_rows_def
  by (intro from_rows_filter from_rows_map_upd)

lemma clean_country_props:
  assumes "clean_country L df = Inr df1"
  shows "columns df1 = columns df"
    and "from_rows {col_idx df ''Country''} (rows df1) (rows df)"
    and "has_col df ''Country'' \<Longrightarrow> col_count df ''Country'' = 1"
    and "has_col df ''Country'' \<Longrightarrow> r \<in> set (rows df1) \<Longrightarrow>
           \<exists>s. cell_at r (col_idx df ''Country'') = CStr s \<and> s \<noteq> ''nan'' \<and> s \<noteq> ''''"
  using assms clean_country_rows_from[of "col_idx df ''Country''" L "rows df"]
    clean_country_rows_cell[of r L "col_idx df ''Country''" "rows df"]
  by (auto simp: clean_country_def from_rows_refl has_col_count split: if_splits)

lemma astype_int_from: "astype_int i rs = Inr rs' \<Longrightarrow> from_rows {i} rs' rs"
  by (auto simp: astype_int_def from_rows_map_upd split: if_splits)

lemma astype_int_gives_int:
  assumes "astype_int i rs = Inr rs'" "r \<in> set rs'"
  shows "\<exists>y. cell_at r i = CInt y"
proof -
  from assms obtain x where "x \<in> set rs" "r = upd_cell i astype_int_cell x"
    "py_int (cell_at x i) \<noteq> None"
    by (auto simp: astype_int_def split: if_splits)
  then show ?thesis by (auto simp: cell_at_upd_cell astype_int_cell_def)
qed


lemma strip_nan: "strip ''nan'' = ''nan''"
  by code_simp

lemma upper_nan: "upper ''nan'' = ''NAN''"
  by code_simp

lemma digits_only_nan: "digits_only ''nan'' = []"
  by code_simp

lemma parse_time_value_null: "parse_time_value L CNull = CNull"
  by (simp add: parse_time_value_def Let_def strip_nan upper_nan digits_only_nan)

lemma py_int_is_int: "is_int c \<Longrightarrow> py_int c \<noteq> None"
  by (cases c) auto

lemma astype_int_total_int:
  "\<forall>r \<in> set rs. is_int (cell_at r i) \<Longrightarrow> \<exists>rs'. astype_int i rs = Inr rs'"
  by (auto simp: astype_int_def py_int_is_int)

lemma clean_year_props:
  assumes "clean_year L df = Inr df2"
  shows "columns df2 = columns df"
    and "from_rows {col_idx df ''Year''} (rows df2) (rows df)"
    and "has_col df ''Year'' \<Longrightarrow> r \<in> set (rows df2) \<Longrightarrow> \<exists>y. cell_at r (col_idx df ''Year'') = CInt y"
proof -
  let ?yi = "col_idx df ''Year''"
  let ?p = "filter (\<lambda>r. notna (cell_at r ?yi)) (map (upd_cell ?yi (parse_time_value L)) (rows df))"
  let ?rows1 = "if \<not> is_integer_dtype ?yi (rows df) then ?p else rows df"
  have p: "from_rows {?yi} ?rows1 (rows df)"
    by (auto intro: from_rows_filter from_rows_map_upd from_rows_refl)
  show "columns df2 = columns df"
    using assms by (auto simp: clean_year_def Let_def split: if_splits sum.splits)
  consider (none) "\<not> has_col df ''Year''" "df2 = df"
    | (one) rows2 where "has_col df ''Year''" "astype_int ?yi ?rows1 = Inr rows2" "rows df2 = rows2"
    using assms by (auto simp: clean_year_def Let_def split: if_splits sum.splits)
  note cases = this
  show "from_rows {?yi} (rows df2) (rows df)"
  proof (cases rule: cases)
    case none
    then show ?thesis by (simp add: from_rows_refl)
  next
    case one
    from from_rows_trans[OF astype_int_from[OF one(2)] p] one(3) show ?thesis by simp
  qed
  show "\<exists>y. cell_at r ?yi = CInt y" if "has_col df ''Year''" "r \<in> set (rows df2)"
  proof (cases rule: cases)
    case none
    with that show ?thesis by simp
  next
    case one
    with that astype_int_gives_int[OF one(2)] show ?thesis by simp
  qed
qed

lemma to_numeric_cell_cases:
  "to_numeric_cell L c = CNull \<or> is_number (to_numeric_cell L c)"
  by (cases c) (auto simp: is_number_def split: option.splits)

lemma clean_emissions_props:
  assumes "clean_emissions L df = Inr df3"
  shows "columns df3 = columns df"
    and "from_rows {col_idx df ''Emissions''} (rows df3) (rows df)"
    and "has_col df ''Emissions'' \<Longrightarrow> col_count df ''Emissions'' = 1"
    and "has_col df ''Emissions'' \<Longrightarrow> r \<in> set (rows df3) \<Longrightarrow>
           nonneg (cell_at r (col_idx df ''Emissions''))"
  using assms from_rows_filter[OF from_rows_filter[OF from_rows_map_upd]]
  by (auto simp: clean_emissions_def from_rows_refl has_col_count Let_def split: if_splits)

lemma drop_missing_props:
  "columns (drop_missing df) = columns df" "set (rows (drop_missing df)) \<subseteq> set (rows df)"
  by (auto simp: drop_missing_def)

lemma sort_frame_props:
  assumes "sort_frame df = Inr out"
  shows "columns out = columns df" "set (rows out) = set (rows df)"
    "sorted (map (sort_cols_key df) (rows out))"
    "col_count df ''Country'' \<le> 1" "col_count df ''Year'' \<le> 1"
  using assms by (auto simp: sort_frame_def split: if_splits)

lemma index_of_absent: "x \<notin> set xs \<Longrightarrow> index_of x xs = length xs"
  by (induction xs) auto

lemma col_idx_neq':
  "has_col df a \<Longrightarrow> a \<noteq> b \<Longrightarrow> col_idx df a \<noteq> col_idx df b"
proof (cases "has_col df b")
  case True
  assume "has_col df a" "a \<noteq> b"
  with True show ?thesis by (rule_tac col_idx_neq)
next
  case False
  assume "has_col df a" "a \<noteq> b"
  with False index_of_nth[of "CStr a" "columns df"] index_of_absent[of "CStr b" "columns df"]
  show ?thesis by (auto simp: has_col_def col_idx_def)
qed

lemma has_col_cong: "columns a = columns b \<Longrightarrow> has_col a n = has_col b n"
  by (simp add: has_col_def)

lemma col_idx_cong: "columns a = columns b \<Longrightarrow> col_idx a n = col_idx b n"
  by (simp add: col_idx_def)

lemma col_count_cong: "columns a = columns b \<Longrightarrow> col_count a n = col_count b n"
  by (simp add: col_count_def)

lemma clean_data_stages:
  assumes "clean_data L df = Inr out"
  obtains df1 df2 df3 where
    "clean_country L (mapped L df) = Inr df1" "clean_year L df1 = Inr df2"
    "clean_emissions L df2 = Inr df3" "sort_frame (drop_missing df3) = Inr out"
  using assms by (auto simp: clean_data_def split: sum.splits)

lemma clean_data_props:
  assumes "clean_data L df = Inr out"
  shows "columns out = columns (mapped L df)"
    and "from_rows {col_idx out ''Country'', col_idx out ''Year'', col_idx out ''Emissions''}
           (rows out) (rows (mapped L df))"
    and "has_col out ''Country'' \<Longrightarrow> r \<in> set (rows out) \<Longrightarrow>
           \<exists>s. cell_at r (col_idx out ''Country'') = CStr s \<and> s \<noteq> ''nan'' \<and> s \<noteq> ''''"
    and "has_col out ''Year'' \<Longrightarrow> r \<in> set (rows out) \<Longrightarrow>
           \<exists>y. cell_at r (col_idx out ''Year'') = CInt y"
    and "has_col out ''Emissions'' \<Longrightarrow> r \<in> set (rows out) \<Longrightarrow>
           nonneg (cell_at r (col_idx out ''Emissions''))"
    and "sorted (map (sort_cols_key out) (rows out))"
    and "col_count out ''Country'' \<le> 1 \<and> col_count out ''Year'' \<le> 1 \<and> col_count out ''Emissions'' \<le> 1"
proof -
  let ?m = "mapped L df"
  from assms obtain df1 df2 df3 where
    s1: "clean_country L ?m = Inr df1" and s2: "clean_year L df1 = Inr df2" and
    s3: "clean_emissions L df2 = Inr df3" and s4: "sort_frame (drop_missing df3) = Inr out"
    by (rule clean_data_stages)
  note c1 = clean_country_props[OF s1]
  note c2 = clean_year_props[OF s2]
  note c3 = clean_emissions_props[OF s3]
  note c4 = drop_missing_props[of df3]
  note c5 = sort_frame_props[OF s4]
  have cols: "columns out = columns ?m" "columns df3 = columns out" "columns df2 = columns out"
    "columns df1 = columns out" "columns (drop_missing df3) = columns out"
    using c1(1) c2(1) c3(1) c4(1) c5(1) by simp_all
  show "columns out = columns ?m" by (rule cols)
  let ?ci = "col_idx out ''Country''" and ?yi = "col_idx out ''Year''"
    and ?ei = "col_idx out ''Emissions''"
  have idx: "col_idx ?m n = col_idx out n" "col_idx df1 n = col_idx out n"
    "col_idx df2 n = col_idx out n" "col_idx df3 n = col_idx out n"
    "has_col ?m n = has_col out n" "has_col df1 n = has_col out n"
    "has_col df2 n = has_col out n" "has_col df3 n = has_col out n"
    "col_count ?m n = col_count out n" "col_count df2 n = col_count out n"
    "col_count (drop_missing df3) n = col_count out n" for n
    using cols by (simp_all add: col_idx_def has_col_def col_count_def)
  have f1: "from_rows {?ci} (rows df1) (rows ?m)" using c1(2) by (simp add: idx)
  have f2: "from_rows {?yi} (rows df2) (rows df1)" using c2(2) by (simp add: idx)
  have f3: "from_rows {?ei} (rows df3) (rows df2)" using c3(2) by (simp add: idx)
  have f4: "from_rows {} (rows out) (rows df3)"
    using c4(2) c5(2) by (intro from_rows_subset) auto
  have f43: "from_rows {?ei} (rows out) (rows df2)"
    using from_rows_trans[OF f4 f3] by simp
  have f432: "from_rows {?ei, ?yi} (rows out) (rows df1)"
    using from_rows_trans[OF f43 f2] by (simp add: insert_commute)
  have "from_rows ({?ei, ?yi} \<union> {?ci}) (rows out) (rows ?m)"
    by (rule from_rows_trans[OF f432 f1])
  then show "from_rows {?ci, ?yi, ?ei} (rows out) (rows ?m)"
    by (rule from_rows_mono) auto
  show "\<exists>s. cell_at r ?ci = CStr s \<and> s \<noteq> ''nan'' \<and> s \<noteq> ''''"
    if h: "has_col out ''Country''" and r: "r \<in> set (rows out)"
  proof -
    have "?ci \<notin> {?ei, ?yi}" using col_idx_neq'[OF h, of "''Year''"] col_idx_neq'[OF h, of "''Emissions''"]
      by auto
    moreover have "\<forall>r \<in> set (rows df1). \<exists>s. cell_at r ?ci = CStr s \<and> s \<noteq> ''nan'' \<and> s \<noteq> ''''"
      using c1(4) h by (simp add: idx)
    ultimately have "\<forall>r \<in> set (rows out). \<exists>s. cell_at r ?ci = CStr s \<and> s \<noteq> ''nan'' \<and> s \<noteq> ''''"
      by (rule from_rows_keep[OF f432, where i = ?ci
            and P = "\<lambda>c. \<exists>s. c = CStr s \<and> s \<noteq> ''nan'' \<and> s \<noteq> ''''"])
    with r show ?thesis by blast
  qed
  show "\<exists>y. cell_at r ?yi = CInt y" if h: "has_col out ''Year''" and r: "r \<in> set (rows out)"
  proof -
    have "?yi \<notin> {?ei}" using col_idx_neq'[OF h, of "''Emissions''"] by auto
    moreover have "\<forall>r \<in> set (rows df2). \<exists>y. cell_at r ?yi = CInt y"
      using c2(3) h by (simp add: idx)
    ultimately have "\<forall>r \<in> set (rows out). \<exists>y. cell_at r ?yi = CInt y"
      by (rule from_rows_keep[OF f43, where i = ?yi and P = "\<lambda>c. \<exists>y. c = CInt y"])
    with r show ?thesis by blast
  qed
  show "nonneg (cell_at r ?ei)" if h: "has_col out ''Emissions''" and r: "r \<in> set (rows out)"
  proof -
    have "r \<in> set (rows df3)" using r c4(2) c5(2) by auto
    with c3(4) h show ?thesis by (simp add: idx)
  qed
  have "sort_cols_key (drop_missing df3) = sort_cols_key out"
    using cols by (auto simp: sort_cols_key_def fun_eq_iff has_col_def col_idx_def)
  with c5(3) show "sorted (map (sort_cols_key out) (rows out))" by simp
  have "col_count out ''Emissions'' \<le> 1"
    using c3(3) by (cases "has_col out ''Emissions''") (auto simp: idx has_col_count)
  with c5(4,5) show "col_count out ''Country'' \<le> 1 \<and> col_count out ''Year'' \<le> 1
      \<and> col_count out ''Emissions'' \<le> 1"
    by (simp add: idx)
qed

lemma validate_data_ok: "validate_data df = Inr u \<longleftrightarrow> has_required df \<and> rows df \<noteq> []"
  by (auto simp: validate_data_def missing_columns_def has_required_def required_columns_def)

lemma load_Inr:
  "load_and_clean_data L df = Inr out \<longleftrightarrow>
     clean_data L (handle_oecd_structure L df) = Inr out \<and> has_required out \<and> rows out \<noteq> []"
  by (auto simp: load_and_clean_data_def validate_data_def missing_columns_def has_required_def
      required_columns_def split: sum.splits if_splits)

lemma has_required_iff:
  "has_required df \<longleftrightarrow> has_col df ''Country'' \<and> has_col df ''Year'' \<and> has_col df ''Emissions''"
  by (simp add: has_required_def required_columns_def)


lemma prod_le_lex:
  fixes c1 c2 :: string and y1 y2 :: int
  assumes "(c1, y1) \<le> (c2, y2)"
  shows "c1 \<le> c2 \<and> (c1 = c2 \<longrightarrow> y1 \<le> y2)"
proof -
  from assms have "c1 < c2 \<or> (c1 \<le> c2 \<and> y1 \<le> y2)"
    by (simp only: less_eq_prod_def fst_conv snd_conv)
  then show ?thesis using less_imp_le[of c1 c2] by blast
qed





lemma astype_int_Inr:
  "astype_int i rs = Inr rs' \<Longrightarrow> rs' = map (upd_cell i astype_int_cell) rs"
  by (auto simp: astype_int_def split: if_splits)

lemma clean_year_row:
  assumes "clean_year L df = Inr df2" "has_col df ''Year''" "r \<in> set (rows df2)"
  shows "\<exists>r1 \<in> set (rows df). agrees_off {col_idx df ''Year''} r r1
           \<and> notna (cell_at r1 (col_idx df ''Year''))"
proof -
  let ?yi = "col_idx df ''Year''"
  let ?p = "filter (\<lambda>r. notna (cell_at r ?yi)) (map (upd_cell ?yi (parse_time_value L)) (rows df))"
  let ?rows1 = "if \<not> is_integer_dtype ?yi (rows df) then ?p else rows df"
  from assms obtain rows2 where a: "astype_int ?yi ?rows1 = Inr rows2" and r2: "rows df2 = rows2"
    by (auto simp: clean_year_def Let_def split: if_splits sum.splits)
  from assms(3) r2 astype_int_Inr[OF a] have "r \<in> upd_cell ?yi astype_int_cell ` set ?rows1"
    by simp
  then obtain x where x: "x \<in> set ?rows1" "r = upd_cell ?yi astype_int_cell x"
    by (rule imageE)
  have "\<exists>r1 \<in> set (rows df). agrees_off {?yi} x r1 \<and> notna (cell_at r1 ?yi)"
  proof (cases "is_integer_dtype ?yi (rows df)")
    case True
    with x(1) have "x \<in> set (rows df)" "is_int (cell_at x ?yi)"
      by (auto simp: is_integer_dtype_def)
    then show ?thesis by (cases "cell_at x ?yi") (auto simp: agrees_off_def notna_def)
  next
    case False
    with x(1) obtain r1 where r1: "r1 \<in> set (rows df)" "x = upd_cell ?yi (parse_time_value L) r1"
      "notna (cell_at x ?yi)" by auto
    then have "parse_time_value L (cell_at r1 ?yi) \<noteq> CNull"
      by (auto simp: cell_at_upd_cell notna_def)
    with parse_time_value_null[of L] have "notna (cell_at r1 ?yi)"
      by (auto simp: notna_def)
    with r1 show ?thesis by (auto simp: agrees_off_def cell_at_upd_cell)
  qed
  then obtain r1 where "r1 \<in> set (rows df)" "agrees_off {?yi} x r1" "notna (cell_at r1 ?yi)" by blast
  with x(2) show ?thesis by (auto simp: agrees_off_def cell_at_upd_cell)
qed


lemma clean_data_year_origin:
  assumes "clean_data L df = Inr out" "has_col out ''Year''" "r \<in> set (rows out)"
  shows "\<exists>r0 \<in> set (rows (mapped L df)).
           agrees_off {col_idx out ''Country'', col_idx out ''Year'', col_idx out ''Emissions''} r r0
         \<and> notna (cell_at r0 (col_idx out ''Year''))"
proof -
  let ?m = "mapped L df"
  from assms(1) obtain df1 df2 df3 where
    s1: "clean_country L ?m = Inr df1" and s2: "clean_year L df1 = Inr df2" and
    s3: "clean_emissions L df2 = Inr df3" and s4: "sort_frame (drop_missing df3) = Inr out"
    by (rule clean_data_stages)
  have cols: "columns df3 = columns out" "columns df2 = columns out" "columns df1 = columns out"
    "columns ?m = columns out"
    using clean_country_props(1)[OF s1] clean_year_props(1)[OF s2] clean_emissions_props(1)[OF s3]
      drop_missing_props(1)[of df3] sort_frame_props(1)[OF s4] by simp_all
  have idx: "col_idx ?m n = col_idx out n" "col_idx df1 n = col_idx out n"
    "col_idx df2 n = col_idx out n" "has_col df1 n = has_col out n" for n
    using cols by (simp_all add: col_idx_def has_col_def)
  let ?ci = "col_idx out ''Country''" and ?yi = "col_idx out ''Year''"
    and ?ei = "col_idx out ''Emissions''"
  have ne: "?yi \<noteq> ?ci"
    using col_idx_neq'[OF assms(2), of "''Country''"] by auto
  have "r \<in> set (rows df3)"
    using assms(3) sort_frame_props(2)[OF s4] drop_missing_props(2)[of df3] by auto
  with clean_emissions_props(2)[OF s3] obtain r2 where
    r2: "r2 \<in> set (rows df2)" "agrees_off {?ei} r r2"
    by (auto simp: from_rows_def idx)
  from clean_year_row[OF s2 _ r2(1)] assms(2) obtain r1 where
    r1: "r1 \<in> set (rows df1)" "agrees_off {?yi} r2 r1" "notna (cell_at r1 ?yi)"
    by (auto simp: idx)
  from clean_country_props(2)[OF s1] r1(1) obtain r0 where
    r0: "r0 \<in> set (rows ?m)" "agrees_off {?ci} r1 r0"
    by (auto simp: from_rows_def idx)
  from r2(2) r1(2) r0(2) have "agrees_off {?ci, ?yi, ?ei} r r0"
    by (simp add: agrees_off_def)
  moreover from r1(3) r0(2) ne have "notna (cell_at r0 ?yi)"
    by (simp add: agrees_off_def)
  ultimately show ?thesis using r0(1) by blast
qed

lemma single_canonical_cong: "columns a = columns b \<Longrightarrow> single_canonical a = single_canonical b"
  by (simp add: single_canonical_def col_count_def)







section \<open>The wide transformer\<close>

lemma year_cols_labels: "map snd (year_cols df) = filter year_label (tl (columns df))"
proof -
  have "map snd (filter (\<lambda>(j, col). year_label col) (enumerate n xs)) = filter year_label xs"
    for n and xs :: "cell list"
    by (induction xs arbitrary: n) auto
  then show ?thesis by (simp add: year_cols_def)
qed

lemma year_cols_length: "length (year_cols df) = length (filter year_label (tl (columns df)))"
  using year_cols_labels[of df] by (metis length_map)

lemma year_cols_mem:
  assumes "(j, col) \<in> set (year_cols df)"
  shows "1 \<le> j \<and> j < length (columns df) \<and> columns df ! j = col
       \<and> (\<exists>y. py_int col = Some y \<and> 2000 \<le> y \<and> y \<le> 2030)"
proof -
  from assms have e: "(j, col) \<in> set (enumerate 1 (tl (columns df)))" and y: "year_label col"
    by (auto simp: year_cols_def)
  from e have j: "1 \<le> j" "j < length (tl (columns df)) + 1" "tl (columns df) ! (j - 1) = col"
    by (auto simp: in_set_enumerate_eq)
  then have "j < length (columns df)" "columns df ! j = col"
    by (cases "columns df"; cases j; simp)+
  moreover from y have "\<exists>y. py_int col = Some y \<and> 2000 \<le> y \<and> y \<le> 2030"
    by (auto simp: year_label_def split: option.splits)
  ultimately show ?thesis using j(1) by blast
qed

lemma long_rows_of_column:
  "clean_country_rows L 0
     (filter (\<lambda>r. notna (cell_at r 2))
        (map (upd_cell 2 (to_numeric_cell L))
           (map (upd_cell 1 astype_int_cell)
              (map (\<lambda>r. [cell_at r 0, col, cell_at r j]) rs))))
   = List.map_filter (wide_record L j col) rs"
  by (induction rs)
    (auto simp: clean_country_rows_def upd_cell_def set_cell_def cell_at_def wide_record_def
      Let_def str_strip_cell_def notna_def map_filter_simps)

lemma long_rows_of_melt:
  "clean_country_rows L 0
     (filter (\<lambda>r. notna (cell_at r 2))
        (map (upd_cell 2 (to_numeric_cell L))
           (map (upd_cell 1 astype_int_cell) (melt_rows df ycs))))
   = concat (map (\<lambda>(j, col). List.map_filter (wide_record L j col) (rows df)) ycs)"
proof (induction ycs)
  case Nil
  then show ?case by (simp add: melt_rows_def clean_country_rows_def)
next
  case (Cons yc ycs)
  obtain j col where yc: "yc = (j, col)" by (cases yc)
  have m: "melt_rows df (yc # ycs)
             = map (\<lambda>r. [cell_at r 0, col, cell_at r j]) (rows df) @ melt_rows df ycs"
    by (simp add: melt_rows_def yc)
  have app: "clean_country_rows L 0 (xs @ ys)
               = clean_country_rows L 0 xs @ clean_country_rows L 0 ys" for xs ys
    by (simp add: clean_country_rows_def)
  show ?case
    unfolding m map_append filter_append app long_rows_of_column Cons.IH
    by (simp add: yc)
qed

lemma melt_astype_int:
  "astype_int 1 (melt_rows df (year_cols df))
     = Inr (map (upd_cell 1 astype_int_cell) (melt_rows df (year_cols df)))"
proof -
  have "py_int (cell_at r 1) \<noteq> None" if "r \<in> set (melt_rows df (year_cols df))" for r
  proof -
    from that obtain j col where "(j, col) \<in> set (year_cols df)" "cell_at r 1 = col"
      by (auto simp: melt_rows_def cell_at_def)
    with year_cols_mem[of j col df] show ?thesis by auto
  qed
  then show ?thesis by (simp add: astype_int_def)
qed

lemma transform_wide_to_long_eq:
  assumes "year_cols df \<noteq> []" "columns df \<noteq> []"
  shows "transform_wide_to_long L df =
           (if CStr ''Emissions'' \<in> set (columns df) then Inl ValueError
            else if hd (columns df) = CStr ''Year'' then Inl KeyError
            else Inr \<lparr> columns = [CStr ''Country'', CStr ''Year'', CStr ''Emissions''],
                       rows = concat (map (\<lambda>(j, col). List.map_filter (wide_record L j col) (rows df))
                                        (year_cols df)) \<rparr>)"
proof (cases "columns df")
  case Nil
  with assms show ?thesis by simp
next
  case (Cons country_col other)
  show ?thesis
    unfolding transform_wide_to_long_def melt_astype_int Let_def sum.case long_rows_of_melt
    using assms(1) Cons by simp
qed

lemma map_filter_length: "length (List.map_filter f xs) \<le> length xs"
  by (simp add: map_filter_def)

lemma concat_map_filter_length:
  "length (concat (map (\<lambda>(j, col). List.map_filter (f j col) rs) ycs)) \<le> length rs * length ycs"
proof (induction ycs)
  case Nil
  then show ?case by simp
next
  case (Cons yc ycs)
  obtain j col where yc: "yc = (j, col)" by (cases yc)
  from Cons map_filter_length[of "f j col" rs] show ?case by (simp add: yc)
qed

lemma wide_record_Some:
  "wide_record L j col r = Some rec \<longleftrightarrow>
     rec = [CStr (strip (py_str L (cell_at r 0))), astype_int_cell col, to_numeric_cell L (cell_at r j)]
     \<and> to_numeric_cell L (cell_at r j) \<noteq> CNull
     \<and> strip (py_str L (cell_at r 0)) \<noteq> ''nan'' \<and> strip (py_str L (cell_at r 0)) \<noteq> []"
  by (auto simp: wide_record_def Let_def)

lemma is_wide_year_cols:
  "is_wide_format_with_years df \<Longrightarrow> 2 \<le> length (year_cols df) \<and> 3 \<le> length (columns df)"
  by (simp add: is_wide_format_with_years_def year_cols_length split: if_splits)

lemma scenario_a_year_cols: "year_cols scenario_a = [(1, CStr ''2020''), (2, CStr ''2021'')]"
  by code_simp

lemma scenario_a_texts:
  "strip ''USA'' = ''USA''" "strip ''France'' = ''France''"
  "astype_int_cell (CStr ''2020'') = CInt 2020" "astype_int_cell (CStr ''2021'') = CInt 2021"
  by code_simp+

lemma scenario_a_long_general:
  assumes "to_numeric_str L ''10'' = Some 10" "to_numeric_str L ''20'' = Some 20"
    "to_numeric_str L ''5'' = Some 5" "to_numeric_str L ''nan'' = None"
  shows "transform_wide_to_long L scenario_a = Inr scenario_a_long"
proof -
  have "year_cols scenario_a \<noteq> []" "columns scenario_a \<noteq> []"
    by (simp_all add: scenario_a_year_cols) (simp add: scenario_a_def)
  from transform_wide_to_long_eq[OF this, of L] show ?thesis
    unfolding scenario_a_year_cols
    by (simp add: scenario_a_def scenario_a_long_def wide_record_def map_filter_simps cell_at_def
        scenario_a_texts assms)
qed

lemma padded_wide_long:
  "transform_wide_to_long example_lib padded_wide
     = Inr \<lparr> columns = [CStr ''Country'', CStr ''Year'', CStr ''Emissions''],
             rows = [[CStr ''USA'', CInt 2020, CFloat 10], [CStr ''USA'', CInt 2021, CFloat 20]] \<rparr>"
  by code_simp


lemma in_map_filter: "y \<in> set (List.map_filter f xs) \<longleftrightarrow> (\<exists>x \<in> set xs. f x = Some y)"
  by (induction xs) (auto simp: map_filter_simps split: option.splits)

lemma long_rows_origin:
  assumes "rec \<in> set (concat (map (\<lambda>(j, col). List.map_filter (wide_record L j col) (rows df))
                                 (year_cols df)))"
  shows "\<exists>(j, col) \<in> set (year_cols df). \<exists>r \<in> set (rows df). \<exists>y.
            py_int col = Some y \<and> 2000 \<le> y \<and> y \<le> 2030 \<and> columns df ! j = col
          \<and> rec = [CStr (strip (py_str L (cell_at r 0))), CInt y, to_numeric_cell L (cell_at r j)]
          \<and> to_numeric_cell L (cell_at r j) \<noteq> CNull
          \<and> strip (py_str L (cell_at r 0)) \<noteq> [] \<and> strip (py_str L (cell_at r 0)) \<noteq> ''nan''"
proof -
  from assms obtain j col r where jc: "(j, col) \<in> set (year_cols df)" and r: "r \<in> set (rows df)"
    and w: "wide_record L j col r = Some rec"
    by (auto simp: in_map_filter)
  from year_cols_mem[OF jc] obtain y where y: "py_int col = Some y" "2000 \<le> y" "y \<le> 2030"
    "columns df ! j = col" by blast
  then have "astype_int_cell col = CInt y" by (simp add: astype_int_cell_def)
  with w y have "py_int col = Some y \<and> 2000 \<le> y \<and> y \<le> 2030 \<and> columns df ! j = col
          \<and> rec = [CStr (strip (py_str L (cell_at r 0))), CInt y, to_numeric_cell L (cell_at r j)]
          \<and> to_numeric_cell L (cell_at r j) \<noteq> CNull
          \<and> strip (py_str L (cell_at r 0)) \<noteq> [] \<and> strip (py_str L (cell_at r 0)) \<noteq> ''nan''"
    by (simp add: wide_record_Some)
  with jc r show ?thesis by blast
qed

lemma scenario_a_wide: "is_wide_format_with_years scenario_a"
  by code_simp

lemma example_lib_numerals:
  "to_numeric_str example_lib ''10'' = Some 10 \<and> to_numeric_str example_lib ''20'' = Some 20
   \<and> to_numeric_str example_lib ''5'' = Some 5 \<and> to_numeric_str example_lib ''nan'' = None"
  by code_simp

text \<open>
  Claim C1, amended. Let the sheet be of the wide format: it has at least three columns,
  and at least two of the columns after the first are year columns, that is, have a
  label of which \<^verbatim>\<open>int\<close> gives a value from 2000 to 2030. Then
  \<^verbatim>\<open>_transform_wide_to_long\<close> returns when no column is labelled Emissions and
  the first is not labelled Year. What it returns has the columns Country, Year and
  Emissions and, for each year column in turn and each row of the sheet in turn, the
  record of the spec: the trimmed text of the first cell, the year of the label and the
  coerced cell under the label, and no record when that cell is not coercible or the
  trimmed text is empty or \<^verbatim>\<open>nan\<close>. So there are at most N times K records for N
  rows and K year columns, the year of each is the year of one of the K labels, and its
  country is the trimmed text of the first cell of one of the N rows. For the table of
  scenario A the records are (USA, 2020, 10), (USA, 2021, 20) and (France, 2021, 5),
  when the numeric parser reads the three numerals and coerces \<^verbatim>\<open>nan\<close> to the
  missing value.
\<close>

theorem wide_transformer_records:
  assumes "is_wide_format_with_years df"
  shows "2 \<le> length (year_cols df) \<and> 3 \<le> length (columns df)
       \<and> map snd (year_cols df) = filter year_label (tl (columns df))
       \<and> (CStr ''Emissions'' \<notin> set (columns df) \<and> hd (columns df) \<noteq> CStr ''Year''
            \<longrightarrow> (\<exists>out. transform_wide_to_long L df = Inr out))
       \<and> (transform_wide_to_long L df = Inr long
            \<longrightarrow> columns long = [CStr ''Country'', CStr ''Year'', CStr ''Emissions'']
              \<and> rows long
                  = concat (map (\<lambda>(j, col). List.map_filter (wide_record L j col) (rows df))
                              (year_cols df))
              \<and> length (rows long) \<le> length (rows df) * length (year_cols df)
              \<and> (\<forall>rec \<in> set (rows long).
                    \<exists>(j, col) \<in> set (year_cols df). \<exists>r \<in> set (rows df). \<exists>y.
                        py_int col = Some y \<and> 2000 \<le> y \<and> y \<le> 2030 \<and> columns df ! j = col
                      \<and> rec = [CStr (strip (py_str L (cell_at r 0))), CInt y,
                               to_numeric_cell L (cell_at r j)]
                      \<and> to_numeric_cell L (cell_at r j) \<noteq> CNull
                      \<and> strip (py_str L (cell_at r 0)) \<noteq> []
                      \<and> strip (py_str L (cell_at r 0)) \<noteq> ''nan''))
       \<and> (df = scenario_a \<and> to_numeric_str L ''10'' = Some 10 \<and> to_numeric_str L ''20'' = Some 20
            \<and> to_numeric_str L ''5'' = Some 5 \<and> to_numeric_str L ''nan'' = None
            \<longrightarrow> transform_wide_to_long L df = Inr scenario_a_long)"
proof -
  let ?recs = "concat (map (\<lambda>(j, col). List.map_filter (wide_record L j col) (rows df))
                         (year_cols df))"
  from is_wide_year_cols[OF assms] have k: "2 \<le> length (year_cols df)" "3 \<le> length (columns df)"
    by simp_all
  then have ne: "year_cols df \<noteq> []" "columns df \<noteq> []" by auto
  note eq = transform_wide_to_long_eq[OF ne, of L]
  have 1: "\<exists>out. transform_wide_to_long L df = Inr out"
    if "CStr ''Emissions'' \<notin> set (columns df) \<and> hd (columns df) \<noteq> CStr ''Year''"
    using that eq by simp
  have 2: "columns long = [CStr ''Country'', CStr ''Year'', CStr ''Emissions'']
         \<and> rows long = ?recs
         \<and> length (rows long) \<le> length (rows df) * length (year_cols df)
         \<and> (\<forall>rec \<in> set (rows long).
                    \<exists>(j, col) \<in> set (year_cols df). \<exists>r \<in> set (rows df). \<exists>y.
                        py_int col = Some y \<and> 2000 \<le> y \<and> y \<le> 2030 \<and> columns df ! j = col
                      \<and> rec = [CStr (strip (py_str L (cell_at r 0))), CInt y,
                               to_numeric_cell L (cell_at r j)]
                      \<and> to_numeric_cell L (cell_at r j) \<noteq> CNull
                      \<and> strip (py_str L (cell_at r 0)) \<noteq> []
                      \<and> strip (py_str L (cell_at r 0)) \<noteq> ''nan'')"
    if t: "transform_wide_to_long L df = Inr long"
  proof -
    from t eq have l: "long = \<lparr> columns = [CStr ''Country'', CStr ''Year'', CStr ''Emissions''],
                                rows = ?recs \<rparr>"
      by (simp split: if_splits)
    then have c: "columns long = [CStr ''Country'', CStr ''Year'', CStr ''Emissions'']"
      and r: "rows long = ?recs" by simp_all
    have n: "length (rows long) \<le> length (rows df) * length (year_cols df)"
      unfolding r by (rule concat_map_filter_length)
    from c r n long_rows_origin[of _ L df] show ?thesis by simp
  qed
  have 3: "transform_wide_to_long L df = Inr scenario_a_long"
    if "df = scenario_a \<and> to_numeric_str L ''10'' = Some 10 \<and> to_numeric_str L ''20'' = Some 20
            \<and> to_numeric_str L ''5'' = Some 5 \<and> to_numeric_str L ''nan'' = None"
    using that scenario_a_long_general[of L] by simp
  from k year_cols_labels[of df] 1 2 3 show ?thesis by blast
qed

theorem wide_transformer_records_witness:
  "is_wide_format_with_years scenario_a
   \<and> length (rows scenario_a) = 2 \<and> length (year_cols scenario_a) = 2
   \<and> transform_wide_to_long example_lib scenario_a = Inr scenario_a_long
   \<and> rows scenario_a_long
       = [[CStr ''USA'', CInt 2020, CFloat 10], [CStr ''USA'', CInt 2021, CFloat 20],
          [CStr ''France'', CInt 2021, CFloat 5]]
   \<and> rows scenario_a_long
       = concat (map (\<lambda>(j, col). List.map_filter (wide_record example_lib j col) (rows scenario_a))
                   (year_cols scenario_a))
   \<and> length (rows scenario_a_long) \<le> length (rows scenario_a) * length (year_cols scenario_a)"
proof -
  note t = wide_transformer_records[OF scenario_a_wide, of example_lib scenario_a_long]
  from t example_lib_numerals
  have a: "transform_wide_to_long example_lib scenario_a = Inr scenario_a_long" by blast
  with t have b: "rows scenario_a_long
       = concat (map (\<lambda>(j, col). List.map_filter (wide_record example_lib j col) (rows scenario_a))
                   (year_cols scenario_a))
     \<and> length (rows scenario_a_long) \<le> length (rows scenario_a) * length (year_cols scenario_a)"
    by blast
  have c: "length (rows scenario_a) = 2 \<and> length (year_cols scenario_a) = 2"
    by (simp add: scenario_a_year_cols) (simp add: scenario_a_def)
  have d: "rows scenario_a_long
       = [[CStr ''USA'', CInt 2020, CFloat 10], [CStr ''USA'', CInt 2021, CFloat 20],
          [CStr ''France'', CInt 2021, CFloat 5]]"
    by (simp add: scenario_a_long_def)
  from scenario_a_wide a b c d show ?thesis by blast
qed

text \<open>
  The claim as stated fails on the wide sheet whose only row is labelled
  \<^verbatim>\<open>USA\<close> between two blanks: the country of both records is the trimmed text
  \<^verbatim>\<open>USA\<close>, which is not a label of the first column.
\<close>

theorem wide_transformer_counterexample:
  "is_wide_format_with_years padded_wide
   \<and> transform_wide_to_long example_lib padded_wide
       = Inr \<lparr> columns = [CStr ''Country'', CStr ''Year'', CStr ''Emissions''],
               rows = [[CStr ''USA'', CInt 2020, CFloat 10], [CStr ''USA'', CInt 2021, CFloat 20]] \<rparr>
   \<and> map (\<lambda>r. cell_at r 0) (rows padded_wide) = [CStr '' USA '']
   \<and> CStr ''USA'' \<notin> set (map (\<lambda>r. cell_at r 0) (rows padded_wide))"
  by code_simp

section \<open>The column mapper and the year cleaner\<close>












section \<open>Errors of the pipeline\<close>


















section \<open>Invariants of the returned table\<close>

lemma scenario_a_result: "load_and_clean_data example_lib scenario_a = Inr scenario_a_clean"
  by code_simp

lemma dirty_table_result: "load_and_clean_data example_lib dirty_table = Inr dirty_table_clean"
  by code_simp

text \<open>
  Claim C5. In every table that \<^verbatim>\<open>load_and_clean_data\<close> returns, two adjacent
  rows at positions \<open>i\<close> and \<open>i + 1\<close> hold texts \<open>c1\<close>, \<open>c2\<close> in the Country column
  and integers \<open>y1\<close>, \<open>y2\<close> in the Year column with \<open>c1 \<le> c2\<close>, and with
  \<open>y1 \<le> y2\<close> when \<open>c1 = c2\<close>. The order on texts is the lexicographic order of the
  character codes.
\<close>

theorem output_sorted_by_country_then_year:
  assumes "load_and_clean_data L sheet = Inr out" "Suc i < length (rows out)"
  shows "\<exists>c1 c2 y1 y2.
           cell_at (rows out ! i) (col_idx out ''Country'') = CStr c1
         \<and> cell_at (rows out ! Suc i) (col_idx out ''Country'') = CStr c2
         \<and> cell_at (rows out ! i) (col_idx out ''Year'') = CInt y1
         \<and> cell_at (rows out ! Suc i) (col_idx out ''Year'') = CInt y2
         \<and> c1 \<le> c2 \<and> (c1 = c2 \<longrightarrow> y1 \<le> y2)"
proof -
  from assms(1) have c: "clean_data L (handle_oecd_structure L sheet) = Inr out"
    and h: "has_col out ''Country''" "has_col out ''Year''"
    by (auto simp: load_Inr has_required_iff)
  let ?a = "rows out ! i" and ?b = "rows out ! Suc i"
  from assms(2) have mem: "?a \<in> set (rows out)" "?b \<in> set (rows out)" by auto
  from clean_data_props(3)[OF c h(1)] mem obtain c1 c2 where
    cc: "cell_at ?a (col_idx out ''Country'') = CStr c1"
      "cell_at ?b (col_idx out ''Country'') = CStr c2"
    by blast
  from clean_data_props(4)[OF c h(2)] mem obtain y1 y2 where
    yy: "cell_at ?a (col_idx out ''Year'') = CInt y1" "cell_at ?b (col_idx out ''Year'') = CInt y2"
    by blast
  have "sorted (map (sort_cols_key out) (rows out))" by (rule clean_data_props(6)[OF c])
  then have "map (sort_cols_key out) (rows out) ! i \<le> map (sort_cols_key out) (rows out) ! Suc i"
    using assms(2) by (intro sorted_nth_mono) auto
  then have "sort_cols_key out ?a \<le> sort_cols_key out ?b" using assms(2) by simp
  then have "(c1, y1) \<le> (c2, y2)" using h cc yy by (simp add: sort_cols_key_def)
  then have "c1 \<le> c2 \<and> (c1 = c2 \<longrightarrow> y1 \<le> y2)" by (rule prod_le_lex)
  with cc yy show ?thesis by blast
qed

theorem output_sorted_by_country_then_year_witness:
  "load_and_clean_data example_lib scenario_a = Inr scenario_a_clean
   \<and> map (\<lambda>r. (cell_at r 0, cell_at r 1)) (rows scenario_a_clean)
       = [(CStr ''France'', CInt 2021), (CStr ''USA'', CInt 2020), (CStr ''USA'', CInt 2021)]
   \<and> (\<exists>c1 c2 y1 y2.
           cell_at (rows scenario_a_clean ! 1) (col_idx scenario_a_clean ''Country'') = CStr c1
         \<and> cell_at (rows scenario_a_clean ! Suc 1) (col_idx scenario_a_clean ''Country'') = CStr c2
         \<and> cell_at (rows scenario_a_clean ! 1) (col_idx scenario_a_clean ''Year'') = CInt y1
         \<and> cell_at (rows scenario_a_clean ! Suc 1) (col_idx scenario_a_clean ''Year'') = CInt y2
         \<and> c1 \<le> c2 \<and> (c1 = c2 \<longrightarrow> y1 \<le> y2))"
proof -
  have l: "Suc 1 < length (rows scenario_a_clean)"
    by (simp add: scenario_a_clean_def)
  have m: "map (\<lambda>r. (cell_at r 0, cell_at r 1)) (rows scenario_a_clean)
       = [(CStr ''France'', CInt 2021), (CStr ''USA'', CInt 2020), (CStr ''USA'', CInt 2021)]"
    by (simp add: scenario_a_clean_def cell_at_def)
  from output_sorted_by_country_then_year[OF scenario_a_result l] scenario_a_result m
  show ?thesis by blast
qed

text \<open>
  Claim C6. No row of a table that \<^verbatim>\<open>load_and_clean_data\<close> returns has an
  emissions value below 0 (the cell is a number \<open>e\<close> with \<open>\<not> e < 0\<close>), and the Country
  cell of every row is a text other than \<^verbatim>\<open>nan\<close> and the empty text.
\<close>

theorem output_rejects_negative_and_blank:
  assumes "load_and_clean_data L sheet = Inr out" "r \<in> set (rows out)"
  shows "(\<exists>e. cell_num (cell_at r (col_idx out ''Emissions'')) = Some e \<and> \<not> e < 0)
       \<and> (\<exists>s. cell_at r (col_idx out ''Country'') = CStr s \<and> s \<noteq> ''nan'' \<and> s \<noteq> '''')"
proof -
  from assms(1) have c: "clean_data L (handle_oecd_structure L sheet) = Inr out"
    and h: "has_col out ''Country''" "has_col out ''Emissions''"
    by (auto simp: load_Inr has_required_iff)
  from clean_data_props(5)[OF c h(2) assms(2)] clean_data_props(3)[OF c h(1) assms(2)]
  show ?thesis by (auto simp: nonneg_def split: option.splits)
qed

theorem output_rejects_negative_and_blank_witness:
  "load_and_clean_data example_lib dirty_table = Inr dirty_table_clean
   \<and> rows dirty_table_clean = [[CStr ''Chile'', CInt 2019, CInt 4], [CStr ''USA'', CInt 2021, CFloat 7]]
   \<and> (\<exists>e. cell_num (cell_at (rows dirty_table_clean ! 1) (col_idx dirty_table_clean ''Emissions''))
            = Some e \<and> \<not> e < 0)
   \<and> (\<exists>s. cell_at (rows dirty_table_clean ! 1) (col_idx dirty_table_clean ''Country'') = CStr s
            \<and> s \<noteq> ''nan'' \<and> s \<noteq> '''')"
proof -
  have m: "rows dirty_table_clean ! 1 \<in> set (rows dirty_table_clean)"
    by (simp add: dirty_table_clean_def)
  have r: "rows dirty_table_clean
      = [[CStr ''Chile'', CInt 2019, CInt 4], [CStr ''USA'', CInt 2021, CFloat 7]]"
    by (simp add: dirty_table_clean_def)
  from output_rejects_negative_and_blank[OF dirty_table_result m] dirty_table_result r
  show ?thesis by blast
qed

section \<open>Properties of \<^verbatim>\<open>calculate_trends\<close>\<close>

lemma unique_rep: "x \<in> set xs \<Longrightarrow> \<exists>u \<in> set (unique xs). cell_key u = cell_key x"
proof (induction xs)
  case Nil
  then show ?case by simp
next
  case (Cons a xs)
  show ?case
  proof (cases "cell_key a = cell_key x")
    case True
    then show ?thesis by auto
  next
    case False
    with Cons.prems have "x \<in> set xs" by auto
    from Cons.IH[OF this] obtain u where "u \<in> set (unique xs)" "cell_key u = cell_key x" by blast
    with False show ?thesis by auto
  qed
qed

lemma cell_key_null: "cell_key x = CNull \<longleftrightarrow> x = CNull"
  by (cases x) auto

lemma py_eq_rows: "py_eq u c \<Longrightarrow> country_rows df u = country_rows df c"
  by (auto simp: country_rows_def py_eq_def intro!: filter_cong)

lemma sort_by_year_length: "sort_by_year yi rs = Inr cd \<Longrightarrow> length cd = length rs"
  by (auto simp: sort_by_year_def split: if_splits)

lemma sort_by_year_set: "sort_by_year yi rs = Inr cd \<Longrightarrow> set cd = set rs"
  by (auto simp: sort_by_year_def split: if_splits)

lemma trend_for_Some:
  "trend_for df c = Inr (Some t) \<Longrightarrow> t_country t = c \<and> 1 < length (country_rows df c)"
  by (auto simp: trend_for_def Let_def split: if_splits sum.splits dest: sort_by_year_length)

lemma trend_for_None:
  "trend_for df c = Inr None \<Longrightarrow> \<not> 1 < length (country_rows df c)"
  by (auto simp: trend_for_def Let_def split: if_splits sum.splits dest: sort_by_year_length)

lemma trends_loop_countries:
  "trends_loop df cs = Inr ts \<Longrightarrow>
     t_country ` set ts = {c \<in> set cs. 1 < length (country_rows df c)}"
proof (induction cs arbitrary: ts)
  case Nil
  then show ?case by auto
next
  case (Cons c cs)
  show ?case
  proof (cases "trend_for df c")
    case (Inl e)
    with Cons.prems show ?thesis by simp
  next
    case (Inr o1)
    show ?thesis
    proof (cases o1)
      case None
      with Inr Cons.prems have "trends_loop df cs = Inr ts" by simp
      from Cons.IH[OF this] trend_for_None[of df c] Inr None show ?thesis by auto
    next
      case (Some t)
      with Inr Cons.prems obtain ts' where l: "trends_loop df cs = Inr ts'" and ts: "ts = t # ts'"
        by (auto split: sum.splits)
      from Cons.IH[OF l] trend_for_Some[of df c t] Inr Some ts show ?thesis by auto
    qed
  qed
qed



lemma trend_pct_returns:
  assumes "is_number f" "is_number l"
  shows "\<exists>p. trend_pct f l = Inr p"
  using assms by (cases f; cases l) (auto simp: is_number_def)



lemma canonical_trend_for:
  assumes "canonical df"
  shows "\<exists>o1. trend_for df c = Inr o1"
proof -
  let ?g = "country_rows df c"
  have sub: "set ?g \<subseteq> set (rows df)" by (auto simp: country_rows_def)
  have "\<not> (\<exists>r \<in> set ?g. is_text (cell_at r (col_idx df ''Year'')))"
    using assms sub by (fastforce simp: canonical_def)
  then obtain cd where cd: "sort_by_year (col_idx df ''Year'') ?g = Inr cd"
    by (auto simp: sort_by_year_def)
  show ?thesis
  proof (cases "1 < length cd")
    case False
    with cd assms show ?thesis by (simp add: trend_for_def canonical_def)
  next
    case True
    then have ne: "cd \<noteq> []" by auto
    from sort_by_year_set[OF cd] sub ne have "hd cd \<in> set (rows df)" "last cd \<in> set (rows df)"
      by auto
    with assms have "is_number (cell_at (hd cd) (col_idx df ''Emissions''))"
      "is_number (cell_at (last cd) (col_idx df ''Emissions''))" by (auto simp: canonical_def)
    from trend_pct_returns[OF this] obtain p where
      "trend_pct (cell_at (hd cd) (col_idx df ''Emissions''))
         (cell_at (last cd) (col_idx df ''Emissions'')) = Inr p" by blast
    with cd True assms show ?thesis by (simp add: trend_for_def canonical_def Let_def)
  qed
qed

lemma canonical_trends_loop:
  assumes "canonical df"
  shows "\<exists>ts. trends_loop df cs = Inr ts"
proof (induction cs)
  case Nil
  then show ?case by simp
next
  case (Cons c cs)
  from canonical_trend_for[OF assms, of c] obtain o1 where "trend_for df c = Inr o1" by blast
  with Cons show ?case by (cases o1) auto
qed

text \<open>On a canonical table \<^verbatim>\<open>calculate_trends\<close> raises nothing.\<close>

lemma canonical_returns: "canonical df \<Longrightarrow> \<exists>ts. calculate_trends df = Inr ts"
  using canonical_trends_loop[of df] by (auto simp: calculate_trends_def canonical_def)

lemma trend_table_result: "calculate_trends trend_table = Inr trend_rows"
  by code_simp



text \<open>
  Claim C10. For a table that has the three columns and on which
  \<^verbatim>\<open>calculate_trends\<close> returns, the result holds a row for a country \<open>c\<close> if and
  only if at least two rows of the table are records of \<open>c\<close> (\<open>country_rows\<close>: the rows
  whose Country cell equals \<open>c\<close>). A country with a single observation has no row.
\<close>

theorem trend_row_iff_two_records:
  assumes "has_col df ''Country''" "has_col df ''Year''" "has_col df ''Emissions''"
    and "calculate_trends df = Inr ts"
  shows "(\<exists>t \<in> set ts. py_eq (t_country t) c) \<longleftrightarrow> 2 \<le> length (country_rows df c)"
proof -
  let ?col = "map (\<lambda>r. cell_at r (col_idx df ''Country'')) (rows df)"
  from assms have loop: "trends_loop df (unique ?col) = Inr ts"
    by (auto simp: calculate_trends_def split: if_splits)
  have cs: "t_country ` set ts = {u \<in> set (unique ?col). 1 < length (country_rows df u)}"
    by (rule trends_loop_countries[OF loop])
  show ?thesis
  proof
    assume "\<exists>t \<in> set ts. py_eq (t_country t) c"
    then obtain t where t: "t \<in> set ts" "py_eq (t_country t) c" by blast
    with cs have "1 < length (country_rows df (t_country t))" by auto
    with py_eq_rows[OF t(2)] show "2 \<le> length (country_rows df c)" by simp
  next
    assume two: "2 \<le> length (country_rows df c)"
    then have "country_rows df c \<noteq> []" by auto
    then obtain r where "r \<in> set (country_rows df c)" by (cases "country_rows df c") auto
    then have r: "r \<in> set (rows df)" "py_eq (cell_at r (col_idx df ''Country'')) c"
      by (auto simp: country_rows_def)
    then have "cell_at r (col_idx df ''Country'') \<in> set ?col" by auto
    from unique_rep[OF this] obtain u where u: "u \<in> set (unique ?col)"
      "cell_key u = cell_key (cell_at r (col_idx df ''Country''))" by blast
    with r(2) have uc: "py_eq u c" by (auto simp: py_eq_def cell_key_null)
    with two py_eq_rows[OF uc] u(1) cs have "u \<in> t_country ` set ts" by auto
    with uc show "\<exists>t \<in> set ts. py_eq (t_country t) c" by auto
  qed
qed

theorem trend_row_iff_two_records_witness:
  "calculate_trends trend_table = Inr trend_rows
   \<and> length (country_rows trend_table (CStr ''USA'')) = 2
   \<and> (\<exists>t \<in> set trend_rows. py_eq (t_country t) (CStr ''USA''))
   \<and> length (country_rows trend_table (CStr ''Peru'')) = 1
   \<and> \<not> (\<exists>t \<in> set trend_rows. py_eq (t_country t) (CStr ''Peru''))"
proof -
  have h: "has_col trend_table ''Country''" "has_col trend_table ''Year''"
    "has_col trend_table ''Emissions''"
    by (simp_all add: has_col_def trend_table_def)
  have u: "length (country_rows trend_table (CStr ''USA'')) = 2"
    by (simp add: country_rows_def trend_table_def col_idx_def cell_at_def py_eq_def)
  have p: "length (country_rows trend_table (CStr ''Peru'')) = 1"
    by (simp add: country_rows_def trend_table_def col_idx_def cell_at_def py_eq_def)
  from trend_row_iff_two_records[OF h trend_table_result, of "CStr ''USA''"]
    trend_row_iff_two_records[OF h trend_table_result, of "CStr ''Peru''"]
    trend_table_result u p
  show ?thesis by simp
qed

end
